theory Spec2Isabelle
  imports Complex_Main
begin

section \<open>Python values\<close>

text \<open>
  The documents the pipeline exchanges are JSON objects whose entries, as far as any code
  reads them, are integers and strings. A dictionary is a map from keys to such values;
  \<open>d.get(k, default)\<close> is \<open>dict_get\<close>. Strings are byte strings: the UTF-8 encoding of
  the Python text.
\<close>

datatype jvalue = JInt int | JStr string

type_synonym dict = "string \<rightharpoonup> jvalue"

datatype error =
    TypeError
  | ZeroDivisionError
  | OverflowError
  | JSONDecodeError

definition dict_get :: "dict \<Rightarrow> string \<Rightarrow> jvalue \<Rightarrow> jvalue" where
  "dict_get d k dflt = (case d k of None \<Rightarrow> dflt | Some v \<Rightarrow> v)"

subsection \<open>Decimal text of an integer\<close>

text \<open>\<open>str(n)\<close> for a Python integer: decimal digits, a leading minus sign when negative.\<close>

definition digit_char :: "int \<Rightarrow> char" where
  "digit_char d = char_of (48 + d)"

function str_nat :: "int \<Rightarrow> string" where
  "str_nat n = (if n < 10 then [digit_char n] else str_nat (n div 10) @ [digit_char (n mod 10)])"
  by pat_completeness auto
termination
  by (relation "measure nat") auto

declare str_nat.simps [simp del]

definition str_int :: "int \<Rightarrow> string" where
  "str_int n = (if n < 0 then CHR ''-'' # str_nat (- n) else str_nat n)"

text \<open>What an f-string field \<open>{v}\<close> prints for a value.\<close>

fun py_str :: "jvalue \<Rightarrow> string" where
  "py_str (JInt n) = str_int n"
| "py_str (JStr s) = s"

section \<open>Binary floating point\<close>

text \<open>
  A Python float is an IEEE 754 binary64 number. \<open>Finite neg m e\<close> stands for the number
  \<open>(-1)^neg * m * 2^e\<close> with \<open>m \<ge> 0\<close> (so \<open>Finite True 0 e\<close> is the negative zero), and
  every operation below rounds its exact result to the nearest binary64 number, ties to
  the even mantissa, with gradual underflow below \<open>2^-1022\<close>.
\<close>

datatype pyfloat = Finite bool int int | Infinity bool | NaN

text \<open>\<open>int.bit_length\<close> of a non-negative integer.\<close>

function bit_length :: "int \<Rightarrow> int" where
  "bit_length n = (if n \<le> 0 then 0 else 1 + bit_length (n div 2))"
  by pat_completeness auto
termination
  by (relation "measure nat") auto

declare bit_length.simps [simp del]

text \<open>
  Multiplication by \<open>2^k\<close> for a fraction \<open>n / d\<close> kept as a pair of integers: a
  non-negative \<open>k\<close> goes to the numerator, a negative one to the denominator.
\<close>

definition shift_frac :: "int \<Rightarrow> int \<Rightarrow> int \<Rightarrow> int \<times> int" where
  "shift_frac n d k = (if 0 \<le> k then (n * 2 ^ nat k, d) else (n, d * 2 ^ nat (- k)))"

text \<open>The integer nearest to \<open>n / d\<close> (\<open>0 \<le> n\<close>, \<open>0 < d\<close>), a tie going to the even one.\<close>

definition round_half_even :: "int \<Rightarrow> int \<Rightarrow> int" where
  "round_half_even n d =
     (let q = n div d; r = n mod d
      in if 2 * r < d then q
         else if d < 2 * r then q + 1
         else if even q then q else q + 1)"

text \<open>
  The exponent \<open>e\<close> with \<open>2^e \<le> n / d < 2^(e + 1)\<close>, for positive \<open>n\<close> and \<open>d\<close>: the
  difference of the bit lengths, or one less.
\<close>

definition floor_log2 :: "int \<Rightarrow> int \<Rightarrow> int" where
  "floor_log2 n d =
     (let k = bit_length n - bit_length d;
          (a, b) = shift_frac n d (- k)
      in if b \<le> a then k else k - 1)"

text \<open>
  Rounding of the positive fraction \<open>n / d\<close> to binary64: 53 significant bits in the
  normal range, multiples of \<open>2^-1074\<close> below it. The result is the pair \<open>(m, e)\<close> of the
  number \<open>m * 2^e\<close>; \<open>too_large\<close> holds of it when the number is beyond the largest
  finite binary64 number.
\<close>

definition round_double :: "int \<Rightarrow> int \<Rightarrow> int \<times> int" where
  "round_double n d =
     (let e = max (floor_log2 n d) (- 1022) - 52;
          (a, b) = shift_frac n d (- e)
      in (round_half_even a b, e))"

definition too_large :: "int \<times> int \<Rightarrow> bool" where
  "too_large r = (case r of (m, e) \<Rightarrow>
     if 0 \<le> e then 2 ^ 1024 \<le> m * 2 ^ nat e else 2 ^ nat (1024 - e) \<le> m)"

text \<open>
  \<open>a / b\<close> on Python integers (true division): the correctly rounded quotient;
  \<open>ZeroDivisionError\<close> for a zero divisor, \<open>OverflowError\<close> when the quotient is too
  large for a float.
\<close>

definition int_true_div :: "int \<Rightarrow> int \<Rightarrow> error + pyfloat" where
  "int_true_div a b =
     (if b = 0 then Inl ZeroDivisionError
      else let negate = ((a < 0) \<noteq> (b < 0))
           in if a = 0 then Inr (Finite negate 0 0)
              else let r = round_double \<bar>a\<bar> \<bar>b\<bar>
                   in if too_large r then Inl OverflowError
                      else Inr (Finite negate (fst r) (snd r)))"

text \<open>\<open>x * y\<close> on floats: the rounded product, an infinity on overflow.\<close>

fun float_mul :: "pyfloat \<Rightarrow> pyfloat \<Rightarrow> pyfloat" where
  "float_mul (Finite s1 m1 e1) (Finite s2 m2 e2) =
     (let negate = (s1 \<noteq> s2)
      in if m1 * m2 = 0 then Finite negate 0 0
         else let (a, b) = shift_frac (m1 * m2) 1 (e1 + e2);
                  r = round_double a b
              in if too_large r then Infinity negate
                 else Finite negate (fst r) (snd r))"
| "float_mul (Finite s1 m1 e1) (Infinity s2) =
     (if m1 = 0 then NaN else Infinity (s1 \<noteq> s2))"
| "float_mul (Infinity s1) (Finite s2 m2 e2) =
     (if m2 = 0 then NaN else Infinity (s1 \<noteq> s2))"
| "float_mul (Infinity s1) (Infinity s2) = Infinity (s1 \<noteq> s2)"
| "float_mul NaN _ = NaN"
| "float_mul _ NaN = NaN"

text \<open>\<open>float(n)\<close> for an integer that binary64 holds exactly.\<close>

definition float_of_small_int :: "int \<Rightarrow> pyfloat" where
  "float_of_small_int n = Finite (n < 0) \<bar>n\<bar> 0"

text \<open>
  \<open>format(x, '.<k>f')\<close>: the decimal text with \<open>k\<close> digits (\<open>k \<ge> 1\<close>) after the point
  nearest to the exact value of \<open>x\<close>, ties to the even digit, and the sign of \<open>x\<close> even
  when every digit is zero.
\<close>

definition pad_zeros :: "nat \<Rightarrow> string \<Rightarrow> string" where
  "pad_zeros k s = replicate (k - length s) CHR ''0'' @ s"

fun format_f :: "nat \<Rightarrow> pyfloat \<Rightarrow> string" where
  "format_f k (Finite s m e) =
     (let (a, b) = shift_frac (m * 10 ^ k) 1 e;
          t = round_half_even a b
      in (if s then ''-'' else '''') @ str_nat (t div 10 ^ k) @ ''.''
           @ pad_zeros k (str_nat (t mod 10 ^ k)))"
| "format_f k (Infinity s) = (if s then ''-inf'' else ''inf'')"
| "format_f k NaN = ''nan''"

text \<open>The rational number a finite float stands for.\<close>

fun float_val :: "pyfloat \<Rightarrow> rat" where
  "float_val (Finite s m e) = (if s then - 1 else 1) * of_int m * 2 powi e"
| "float_val _ = 0"

section \<open>The dashboard renderer\<close>

text \<open>
  \<open>scripts/generate_dashboard.py\<close>. Every piece of the page is a triple-quoted Python
  text that opens with a line break and closes each of its lines with one:
  \<open>text_block\<close> of the lines. The lines below are the source's own, with the doubled
  braces of the f-strings written once and the fields spliced in.
\<close>

definition text_block :: "string list \<Rightarrow> string" where
  "text_block ls = CHR 0x0A # concat (map (\<lambda>l. l @ [CHR 0x0A]) ls)"

definition document_head_lines :: "string list" where
  \<open>document_head_lines =
     [''<!DOCTYPE html>'',
      ''<html lang="en">'',
      ''<head>'',
      ''    <meta charset="UTF-8">'',
      ''    <meta name="viewport" content="width=device-width, initial-scale=1.0">'',
      ''    <title>AQX Trading Platform - Test Dashboard</title>'',
      ''    <script src="https://cdn.jsdelivr.net/npm/chart.js"></script>'',
      ''    <style>'']\<close>

definition style_lines :: "string list" where
  \<open>style_lines =
     [''        * {'',
      ''            margin: 0;'',
      ''            padding: 0;'',
      ''            box-sizing: border-box;'',
      ''        }'',
      ''        '',
      ''        body {'',
      ''            font-family: 'Segoe UI', Tahoma, Geneva, Verdana, sans-serif;'',
      ''            background: linear-gradient(135deg, #667eea 0%, #764ba2 100%);'',
      ''            min-height: 100vh;'',
      ''            color: #333;'',
      ''        }'',
      ''        '',
      ''        .container {'',
      ''            max-width: 1200px;'',
      ''            margin: 0 auto;'',
      ''            padding: 20px;'',
      ''        }'',
      ''        '',
      ''        .header {'',
      ''            background: rgba(255, 255, 255, 0.95);'',
      ''            border-radius: 15px;'',
      ''            padding: 30px;'',
      ''            margin-bottom: 30px;'',
      ''            box-shadow: 0 10px 30px rgba(0, 0, 0, 0.1);'',
      ''            backdrop-filter: blur(10px);'',
      ''        }'',
      ''        '',
      ''        .header h1 {'',
      ''            color: #2c3e50;'',
      ''            font-size: 2.5em;'',
      ''            margin-bottom: 10px;'',
      ''            text-align: center;'',
      ''        }'',
      ''        '',
      ''        .header .subtitle {'',
      ''            text-align: center;'',
      ''            color: #7f8c8d;'',
      ''            font-size: 1.2em;'',
      ''        }'',
      ''        '',
      ''        .metrics-grid {'',
      ''            display: grid;'',
      ''            grid-template-columns: repeat(auto-fit, minmax(250px, 1fr));'',
      ''            gap: 20px;'',
      ''            margin-bottom: 30px;'',
      ''        }'',
      ''        '',
      ''        .metric-card {'',
      ''            background: rgba(255, 255, 255, 0.95);'',
      ''            border-radius: 15px;'',
      ''            padding: 25px;'',
      ''            box-shadow: 0 8px 25px rgba(0, 0, 0, 0.1);'',
      ''            backdrop-filter: blur(10px);'',
      ''            transition: transform 0.3s ease;'',
      ''        }'',
      ''        '',
      ''        .metric-card:hover {'',
      ''            transform: translateY(-5px);'',
      ''        }'',
      ''        '',
      ''        .metric-value {'',
      ''            font-size: 3em;'',
      ''            font-weight: bold;'',
      ''            margin-bottom: 10px;'',
      ''        }'',
      ''        '',
      ''        .metric-label {'',
      ''            color: #7f8c8d;'',
      ''            font-size: 1.1em;'',
      ''        }'',
      ''        '',
      ''        .passed { color: #27ae60; }'',
      ''        .failed { color: #e74c3c; }'',
      ''        .total { color: #3498db; }'',
      ''        .rate { color: #9b59b6; }'',
      ''        '',
      ''        .charts-container {'',
      ''            display: grid;'',
      ''            grid-template-columns: 1fr 1fr;'',
      ''            gap: 30px;'',
      ''            margin-bottom: 30px;'',
      ''        }'',
      ''        '',
      ''        .chart-card {'',
      ''            background: rgba(255, 255, 255, 0.95);'',
      ''            border-radius: 15px;'',
      ''            padding: 25px;'',
      ''            box-shadow: 0 8px 25px rgba(0, 0, 0, 0.1);'',
      ''            backdrop-filter: blur(10px);'',
      ''        }'',
      ''        '',
      ''        .test-details {'',
      ''            background: rgba(255, 255, 255, 0.95);'',
      ''            border-radius: 15px;'',
      ''            padding: 25px;'',
      ''            box-shadow: 0 8px 25px rgba(0, 0, 0, 0.1);'',
      ''            backdrop-filter: blur(10px);'',
      ''            margin-bottom: 30px;'',
      ''        }'',
      ''        '',
      ''        .test-item {'',
      ''            border-bottom: 1px solid #ecf0f1;'',
      ''            padding: 15px 0;'',
      ''            display: flex;'',
      ''            justify-content: space-between;'',
      ''            align-items: center;'',
      ''        }'',
      ''        '',
      ''        .test-item:last-child {'',
      ''            border-bottom: none;'',
      ''        }'',
      ''        '',
      ''        .test-name {'',
      ''            font-weight: 600;'',
      ''            color: #2c3e50;'',
      ''        }'',
      ''        '',
      ''        .test-status {'',
      ''            padding: 5px 15px;'',
      ''            border-radius: 20px;'',
      ''            font-size: 0.9em;'',
      ''            font-weight: 600;'',
      ''        }'',
      ''        '',
      ''        .status-passed {'',
      ''            background: #d5f4e6;'',
      ''            color: #27ae60;'',
      ''        }'',
      ''        '',
      ''        .status-failed {'',
      ''            background: #fadbd8;'',
      ''            color: #e74c3c;'',
      ''        }'',
      ''        '',
      ''        .screenshots-section {'',
      ''            background: rgba(255, 255, 255, 0.95);'',
      ''            border-radius: 15px;'',
      ''            padding: 25px;'',
      ''            box-shadow: 0 8px 25px rgba(0, 0, 0, 0.1);'',
      ''            backdrop-filter: blur(10px);'',
      ''        }'',
      ''        '',
      ''        .screenshot-grid {'',
      ''            display: grid;'',
      ''            grid-template-columns: repeat(auto-fill, minmax(200px, 1fr));'',
      ''            gap: 15px;'',
      ''            margin-top: 20px;'',
      ''        }'',
      ''        '',
      ''        .screenshot-item {'',
      ''            border-radius: 10px;'',
      ''            overflow: hidden;'',
      ''            box-shadow: 0 4px 15px rgba(0, 0, 0, 0.1);'',
      ''            transition: transform 0.3s ease;'',
      ''        }'',
      ''        '',
      ''        .screenshot-item:hover {'',
      ''            transform: scale(1.05);'',
      ''        }'',
      ''        '',
      ''        .screenshot-item img {'',
      ''            width: 100%;'',
      ''            height: auto;'',
      ''            cursor: pointer;'',
      ''        }'',
      ''        '',
      ''        .timestamp {'',
      ''            color: #7f8c8d;'',
      ''            font-size: 0.9em;'',
      ''            text-align: center;'',
      ''            margin-top: 20px;'',
      ''        }'',
      ''        '',
      ''        @media (max-width: 768px) {'',
      ''            .charts-container {'',
      ''                grid-template-columns: 1fr;'',
      ''            }'',
      ''            '',
      ''            .metrics-grid {'',
      ''                grid-template-columns: 1fr;'',
      ''            }'',
      ''        }'']\<close>

definition body_head_lines :: "jvalue \<Rightarrow> jvalue \<Rightarrow> jvalue \<Rightarrow> pyfloat \<Rightarrow> string list" where
  \<open>body_head_lines total_tests passed failed pass_rate =
     [''    </style>'',
      ''</head>'',
      ''<body>'',
      ''    <div class="container">'',
      ''        <div class="header">'',
      ''            <h1>'' @ [CHR 0xF0, CHR 0x9F, CHR 0x9A, CHR 0x80] @ '' AQX Trading Platform</h1>'',
      ''            <div class="subtitle">Automated Test Results Dashboard</div>'',
      ''        </div>'',
      ''        '',
      ''        <div class="metrics-grid">'',
      ''            <div class="metric-card">'',
      ''                <div class="metric-value total">'' @ py_str total_tests @ ''</div>'',
      ''                <div class="metric-label">Total Tests</div>'',
      ''            </div>'',
      ''            <div class="metric-card">'',
      ''                <div class="metric-value passed">'' @ py_str passed @ ''</div>'',
      ''                <div class="metric-label">Tests Passed</div>'',
      ''            </div>'',
      ''            <div class="metric-card">'',
      ''                <div class="metric-value failed">'' @ py_str failed @ ''</div>'',
      ''                <div class="metric-label">Tests Failed</div>'',
      ''            </div>'',
      ''            <div class="metric-card">'',
      ''                <div class="metric-value rate">'' @ format_f 1 pass_rate @ ''%</div>'',
      ''                <div class="metric-label">Pass Rate</div>'',
      ''            </div>'',
      ''        </div>'',
      ''        '',
      ''        <div class="charts-container">'',
      ''            <div class="chart-card">'',
      ''                <h3>Test Results Distribution</h3>'',
      ''                <canvas id="resultsChart" width="400" height="200"></canvas>'',
      ''            </div>'',
      ''            <div class="chart-card">'',
      ''                <h3>Test Categories</h3>'',
      ''                <canvas id="categoriesChart" width="400" height="200"></canvas>'',
      ''            </div>'',
      ''        </div>'',
      ''        '',
      ''        <div class="test-details">'',
      ''            <h3>'' @ [CHR 0xF0, CHR 0x9F, CHR 0x93, CHR 0x8B] @ '' Detailed Test Results</h3>'',
      ''            <div class="test-list">'']\<close>


text \<open>One entry of the detailed results: the body of the loop over \<open>test_details\<close>.\<close>

definition test_item :: "dict \<Rightarrow> string" where
  \<open>test_item test =
     (let test_name = dict_get test ''test_name'' (JStr ''Unknown Test'');
          status = dict_get test ''status'' (JStr ''UNKNOWN'');
          status_class = (if status = JStr ''PASSED'' then ''status-passed'' else ''status-failed'')
      in text_block
         [''                <div class="test-item">'',
           ''                    <div class="test-name">'' @ py_str test_name @ ''</div>'',
           ''                    <div class="test-status '' @ status_class @ ''">'' @ py_str status @ ''</div>'',
           ''                </div>''])\<close>

definition details_close_lines :: "string list" where
  \<open>details_close_lines =
     [''            </div>'',
      ''        </div>'']\<close>

definition screenshots_open_lines :: "string list" where
  \<open>screenshots_open_lines =
     [''        <div class="screenshots-section">'',
      ''            <h3>'' @ [CHR 0xF0, CHR 0x9F, CHR 0x93, CHR 0xB8] @ '' Test Screenshots</h3>'',
      ''            <div class="screenshot-grid">'']\<close>

definition screenshot_item_lines :: "string \<Rightarrow> string list" where
  \<open>screenshot_item_lines screenshot =
     [''                <div class="screenshot-item">'',
      ''                    <img src="screenshots/'' @ screenshot @ ''" alt="Test Screenshot" onclick="window.open('screenshots/'' @ screenshot @ [CHR 0x27] @ '', '_blank')">'',
      ''                </div>'']\<close>

definition screenshots_close_lines :: "string list" where
  \<open>screenshots_close_lines =
     [''            </div>'',
      ''        </div>'']\<close>

definition timestamp_lines :: "string \<Rightarrow> string list" where
  \<open>timestamp_lines generated_on =
     [''        <div class="timestamp">'',
      ''            Generated on '' @ generated_on,
      ''        </div>'',
      ''    </div>'',
      ''    '',
      ''    <script>'']\<close>

definition results_chart_lines :: "jvalue \<Rightarrow> jvalue \<Rightarrow> string list" where
  \<open>results_chart_lines passed failed =
     [''        // Results chart'',
      ''        const resultsCtx = document.getElementById('resultsChart').getContext('2d');'',
      ''        new Chart(resultsCtx, {'',
      ''            type: 'doughnut','',
      ''            data: {'',
      ''                labels: ['Passed', 'Failed'],'',
      ''                datasets: [{'',
      ''                    data: ['' @ py_str passed @ '', '' @ py_str failed @ ''],'',
      ''                    backgroundColor: ['#27ae60', '#e74c3c'],'',
      ''                    borderWidth: 0'',
      ''                }]'',
      ''            },'',
      ''            options: {'',
      ''                responsive: true,'',
      ''                plugins: {'',
      ''                    legend: {'',
      ''                        position: 'bottom'' @ [CHR 0x27],
      ''                    }'',
      ''                }'',
      ''            }'',
      ''        });'',
      ''        '']\<close>

definition categories_chart_lines :: "string list" where
  \<open>categories_chart_lines =
     [''        // Categories chart (mock data for demonstration)'',
      ''        const categoriesCtx = document.getElementById('categoriesChart').getContext('2d');'',
      ''        new Chart(categoriesCtx, {'',
      ''            type: 'bar','',
      ''            data: {'',
      ''                labels: ['Login', 'Trading', 'Views', 'Bulk Ops'],'',
      ''                datasets: [{'',
      ''                    label: 'Tests','',
      ''                    data: [2, 4, 4, 2],'',
      ''                    backgroundColor: ['#3498db', '#9b59b6', '#f39c12', '#1abc9c'],'',
      ''                    borderWidth: 0'',
      ''                }]'',
      ''            },'',
      ''            options: {'',
      ''                responsive: true,'',
      ''                scales: {'',
      ''                    y: {'',
      ''                        beginAtZero: true'',
      ''                    }'',
      ''                },'',
      ''                plugins: {'',
      ''                    legend: {'',
      ''                        display: false'',
      ''                    }'',
      ''                }'',
      ''            }'',
      ''        });'']\<close>

definition document_close_lines :: "string list" where
  \<open>document_close_lines =
     [''    </script>'',
      ''</body>'',
      ''</html>'']\<close>


text \<open>
  The argument of the renderer: the dictionary \<open>load_test_results\<close> builds. A key may
  be absent (\<open>None\<close>), and the renderer reads each with a default.
\<close>

record loaded_results =
  summary :: "dict option"
  test_details :: "dict list option"
  screenshots :: "string list option"
  logs :: "string list option"

definition results_get :: "'a option \<Rightarrow> 'a \<Rightarrow> 'a" where
  "results_get field dflt = (case field of None \<Rightarrow> dflt | Some v \<Rightarrow> v)"

text \<open>\<open>total_tests > 0\<close>: defined on an integer, a \<open>TypeError\<close> on a string.\<close>

fun py_gt_zero :: "jvalue \<Rightarrow> error + bool" where
  "py_gt_zero (JInt n) = Inr (0 < n)"
| "py_gt_zero (JStr s) = Inl TypeError"

text \<open>\<open>passed / total_tests\<close>: true division of integers, a \<open>TypeError\<close> on a string.\<close>

fun py_true_div :: "jvalue \<Rightarrow> jvalue \<Rightarrow> error + pyfloat" where
  "py_true_div (JInt a) (JInt b) = int_true_div a b"
| "py_true_div _ _ = Inl TypeError"

text \<open>
  \<open>pass_rate = (passed / total_tests * 100) if total_tests > 0 else 0\<close>. The \<open>0\<close> of
  the last branch is the integer, which \<open>.1f\<close> formats as the float zero.
\<close>

definition pass_rate :: "jvalue \<Rightarrow> jvalue \<Rightarrow> error + pyfloat" where
  "pass_rate total_tests passed =
     (case py_gt_zero total_tests of
        Inl e \<Rightarrow> Inl e
      | Inr True \<Rightarrow>
          (case py_true_div passed total_tests of
             Inl e \<Rightarrow> Inl e
           | Inr q \<Rightarrow> Inr (float_mul q (float_of_small_int 100)))
      | Inr False \<Rightarrow> Inr (float_of_small_int 0))"

text \<open>
  The first and the last text of the page: everything up to the opening of the list of
  detailed results, and everything from the time stamp on.
\<close>

definition page_head :: "jvalue \<Rightarrow> jvalue \<Rightarrow> jvalue \<Rightarrow> pyfloat \<Rightarrow> string" where
  "page_head total_tests passed failed rate =
     text_block (document_head_lines @ style_lines
                 @ body_head_lines total_tests passed failed rate)"

definition page_tail :: "string \<Rightarrow> jvalue \<Rightarrow> jvalue \<Rightarrow> string" where
  "page_tail generated_on passed failed =
     text_block (timestamp_lines generated_on @ results_chart_lines passed failed
                 @ categories_chart_lines @ document_close_lines)"

text \<open>
  \<open>generate_dashboard_html(results)\<close>. \<open>generated_on\<close> is the text of
  \<open>datetime.now().strftime("%Y-%m-%d %H:%M:%S")\<close> at the call. Each \<open>html_content +=\<close>
  of the source is one step below, the two loops are folds over their lists.
\<close>

definition generate_dashboard_html :: "loaded_results \<Rightarrow> string \<Rightarrow> error + string" where
  "generate_dashboard_html results generated_on =
     (let summary = results_get (summary results) Map.empty;
          test_details = results_get (test_details results) [];
          screenshots = results_get (screenshots results) [];
          total_tests = dict_get summary ''total_tests'' (JInt 0);
          passed = dict_get summary ''passed'' (JInt 0);
          failed = dict_get summary ''failed'' (JInt 0)
      in case pass_rate total_tests passed of
           Inl e \<Rightarrow> Inl e
         | Inr rate \<Rightarrow>
             (let html_content = page_head total_tests passed failed rate;
                  html_content = foldl (\<lambda>html test. html @ test_item test) html_content test_details;
                  html_content = html_content @ text_block details_close_lines;
                  html_content =
                    (if screenshots \<noteq> [] then
                       (let html_content = html_content @ text_block screenshots_open_lines;
                            html_content = foldl (\<lambda>html screenshot. html @ text_block (screenshot_item_lines screenshot))
                                             html_content (take 12 screenshots)
                        in html_content @ text_block screenshots_close_lines)
                     else html_content);
                  html_content = html_content @ page_tail generated_on passed failed
              in Inr html_content))"

subsection \<open>Loading the persisted documents\<close>

text \<open>
  What \<open>load_test_results\<close> finds on disk. A JSON file is absent, present but not
  parsable (\<open>json.load\<close> raises), or parsed. Of the detail document only the key
  \<open>test_results\<close> is read, which may be missing. A directory is absent (\<open>None\<close>) or
  holds the file names its \<open>glob\<close> yields, in the order it yields them.
\<close>

datatype 'a json_file = Absent | Unparsable | Parsed 'a

record report_data =
  test_results :: "dict list option"

record files =
  test_summary_json :: "dict json_file"
  test_report_json :: "report_data json_file"
  screenshots_dir :: "string list option"
  logs_dir :: "string list option"

text \<open>\<open>if file.exists(): json.load(file)\<close>: nothing, an error, or the document.\<close>

fun load_if_exists :: "'a json_file \<Rightarrow> error + 'a option" where
  "load_if_exists Absent = Inr None"
| "load_if_exists Unparsable = Inl JSONDecodeError"
| "load_if_exists (Parsed doc) = Inr (Some doc)"

definition load_test_results :: "files \<Rightarrow> error + loaded_results" where
  "load_test_results fs =
     (let results = \<lparr>summary = Some Map.empty, test_details = Some [],
                      screenshots = Some [], logs = Some []\<rparr>
      in case load_if_exists (test_summary_json fs) of
           Inl e \<Rightarrow> Inl e
         | Inr summary_file \<Rightarrow>
             (let results = (case summary_file of
                               Some doc \<Rightarrow> results\<lparr>summary := Some doc\<rparr>
                             | None \<Rightarrow> results)
              in case load_if_exists (test_report_json fs) of
                   Inl e \<Rightarrow> Inl e
                 | Inr report_file \<Rightarrow>
                     (let results = (case report_file of
                                       Some report_data \<Rightarrow>
                                         results\<lparr>test_details :=
                                           Some (results_get (test_results report_data) [])\<rparr>
                                     | None \<Rightarrow> results);
                          results = (case screenshots_dir fs of
                                       Some names \<Rightarrow> results\<lparr>screenshots := Some names\<rparr>
                                     | None \<Rightarrow> results);
                          results = (case logs_dir fs of
                                       Some names \<Rightarrow> results\<lparr>logs := Some names\<rparr>
                                     | None \<Rightarrow> results)
                      in Inr results)))"

text \<open>
  \<open>main\<close> of the script: load, render; the value is the text written to
  \<open>reports/test_dashboard.html\<close>.
\<close>

definition dashboard_main :: "files \<Rightarrow> string \<Rightarrow> error + string" where
  "dashboard_main fs generated_on =
     (case load_test_results fs of
        Inl e \<Rightarrow> Inl e
      | Inr results \<Rightarrow> generate_dashboard_html results generated_on)"

section \<open>The two counting paths\<close>

subsection \<open>The session-finish hook\<close>

text \<open>
  \<open>pytest_sessionfinish\<close> of \<open>tests/conftest.py\<close>. The session's two counters come
  from the test engine; \<open>end_time\<close> is the text of \<open>datetime.now().isoformat()\<close>. The
  value is the summary written to \<open>reports/test_summary.json\<close>.
\<close>

record session =
  testscollected :: int
  testsfailed :: int

definition pytest_sessionfinish :: "session \<Rightarrow> int \<Rightarrow> string \<Rightarrow> dict" where
  "pytest_sessionfinish session exitstatus end_time =
     (let passed = testscollected session - testsfailed session
      in [''total_tests'' \<mapsto> JInt (testscollected session),
          ''passed'' \<mapsto> JInt passed,
          ''failed'' \<mapsto> JInt (testsfailed session),
          ''exit_status'' \<mapsto> JInt exitstatus,
          ''end_time'' \<mapsto> JStr end_time])"

subsection \<open>The reporter\<close>

text \<open>
  \<open>TestReporter\<close> of \<open>tests/test_aqx_platform.py\<close>. \<open>details\<close> is the free-form
  payload, of any type \<open>'d\<close>; \<open>timestamp\<close> and \<open>duration\<close> are the clock readings
  (\<open>datetime.now().isoformat()\<close>, \<open>time.time()\<close>) at the call.
\<close>

record 'd result_record =
  test_name :: string
  status :: string
  details :: 'd
  timestamp :: string
  duration :: pyfloat

record 'd test_reporter =
  results :: "'d result_record list"
  start_time :: string

definition add_result ::
  "'d test_reporter \<Rightarrow> string \<Rightarrow> string \<Rightarrow> 'd \<Rightarrow> string \<Rightarrow> pyfloat \<Rightarrow> 'd test_reporter" where
  "add_result self name st det now_iso now_time =
     self\<lparr>results := results self
        @ [\<lparr>test_name = name, status = st, details = det,
             timestamp = now_iso, duration = now_time\<rparr>]\<rparr>"

record 'd report =
  report_summary :: dict
  report_test_results :: "'d result_record list"

text \<open>
  \<open>generate_report\<close>: \<open>end_time\<close> is the text of the end instant and
  \<open>total_duration\<close> the seconds elapsed since \<open>start_time\<close>. The value is the report
  returned (and written to \<open>reports/test_report.json\<close>).
\<close>

definition generate_report ::
  "'d test_reporter \<Rightarrow> string \<Rightarrow> pyfloat \<Rightarrow> error + 'd report" where
  "generate_report self end_time total_duration =
     (let passed = int (length (filter (\<lambda>r. status r = ''PASSED'') (results self)));
          failed = int (length (filter (\<lambda>r. status r = ''FAILED'') (results self)));
          total = int (length (results self))
      in case (if results self \<noteq> [] then
                 (case int_true_div passed total of
                    Inl e \<Rightarrow> Inl e
                  | Inr q \<Rightarrow> Inr (format_f 1 (float_mul q (float_of_small_int 100)) @ ''%''))
               else Inr ''0%'') of
           Inl e \<Rightarrow> Inl e
         | Inr rate_text \<Rightarrow>
             Inr \<lparr>report_summary =
                    [''total_tests'' \<mapsto> JInt total,
                     ''passed'' \<mapsto> JInt passed,
                     ''failed'' \<mapsto> JInt failed,
                     ''pass_rate'' \<mapsto> JStr rate_text,
                     ''start_time'' \<mapsto> JStr (start_time self),
                     ''end_time'' \<mapsto> JStr end_time,
                     ''duration'' \<mapsto> JStr (format_f 2 total_duration @ ''s'')],
                  report_test_results = results self\<rparr>)"

section \<open>The run orchestrator\<close>

text \<open>
  \<open>run_tests.py\<close>. The orchestrator talks to the outside through \<open>subprocess.run\<close>,
  the file system and \<open>print\<close>. What the outside answers is the \<open>environment\<close>; what
  the orchestrator does to it, in order, is a list of events. \<open>CallEngine\<close> and
  \<open>CallDashboard\<close> are the two calls of \<open>subprocess.run\<close>, recorded when they are made,
  whether they return or raise; the other events are the printed messages.
\<close>

record completed_process =
  returncode :: int
  stdout :: string
  stderr :: string

text \<open>
  An exception out of \<open>subprocess.run\<close>: the process could not be started (with the
  exception's text), or, under \<open>check=True\<close>, it ended with a non-zero exit status.
\<close>

datatype exn = LaunchError string | CalledProcessError int

datatype 'a outcome = Raises exn | Returns 'a

record environment =
  mkdir_error :: "string option"
  os_environ :: "string \<rightharpoonup> string"
  base_dir :: string
  report_stamp :: string
  junit_stamp :: string
  engine :: "string list \<Rightarrow> (string \<rightharpoonup> string) \<Rightarrow> completed_process outcome"
  dashboard_script :: "string list \<Rightarrow> completed_process outcome"
  summary_file :: "dict json_file"

datatype event =
    PrintBanner string string bool bool
  | PrintExecuting "string list"
  | CallEngine "string list"
  | PrintTestOutput string
  | PrintWarningsErrors string
  | PrintGeneratingDashboard
  | CallDashboard "string list"
  | PrintDashboardGenerated
  | PrintDashboardFailed exn
  | PrintSummaryHeader bool string
  | PrintResults string string string
  | PrintPassRate string
  | PrintCouldNotLoadSummary error
  | PrintSummaryFooter
  | PrintErrorRunningTests exn
  | PrintAvailableTests
  | UncaughtException string

definition path_join :: "string \<Rightarrow> string \<Rightarrow> string" where
  "path_join dir name = dir @ ''/'' @ name"

definition reports_dir :: "environment \<Rightarrow> string" where
  "reports_dir env = path_join (base_dir env) ''reports''"

text \<open>
  \<open>generate_dashboard\<close>: the renderer runs as a child process under \<open>check=True\<close>, and
  any exception of that call is caught and printed as a warning.
\<close>

definition dashboard_command :: "environment \<Rightarrow> string list" where
  "dashboard_command env =
     [''python'', path_join (path_join (base_dir env) ''scripts'') ''generate_dashboard.py'']"

definition generate_dashboard :: "environment \<Rightarrow> event list" where
  "generate_dashboard env =
     [PrintGeneratingDashboard, CallDashboard (dashboard_command env)]
     @ (case dashboard_script env (dashboard_command env) of
          Raises e \<Rightarrow> [PrintDashboardFailed e]
        | Returns p \<Rightarrow>
            if returncode p \<noteq> 0 then [PrintDashboardFailed (CalledProcessError (returncode p))]
            else [PrintDashboardGenerated])"

text \<open>
  \<open>print_summary\<close>: the status line, then the persisted summary when its file exists.
  Everything that reads the file is inside one \<open>try\<close>, whose handler prints a warning.
\<close>

definition print_summary :: "environment \<Rightarrow> int \<Rightarrow> string \<Rightarrow> event list" where
  "print_summary env exit_code report_name =
     [PrintSummaryHeader (exit_code = 0) (path_join (reports_dir env) report_name)]
     @ (case summary_file env of
          Absent \<Rightarrow> []
        | Unparsable \<Rightarrow> [PrintCouldNotLoadSummary JSONDecodeError]
        | Parsed summary' \<Rightarrow>
            [PrintResults (py_str (dict_get summary' ''total_tests'' (JStr ''N/A'')))
                          (py_str (dict_get summary' ''passed'' (JStr ''N/A'')))
                          (py_str (dict_get summary' ''failed'' (JStr ''N/A'')))]
            @ (case py_gt_zero (dict_get summary' ''total_tests'' (JInt 0)) of
                 Inl e \<Rightarrow> [PrintCouldNotLoadSummary e]
               | Inr False \<Rightarrow> []
               | Inr True \<Rightarrow>
                   (case py_true_div (dict_get summary' ''passed'' (JInt 0))
                                     (dict_get summary' ''total_tests'' (JInt 1)) of
                      Inl e \<Rightarrow> [PrintCouldNotLoadSummary e]
                    | Inr q \<Rightarrow>
                        [PrintPassRate (format_f 1 (float_mul q (float_of_small_int 100)) @ ''%'')])))
     @ [PrintSummaryFooter]"

text \<open>
  The first half of \<open>run_tests\<close>: the command line of the engine with the name of its
  HTML report, and the environment the engine runs in.
\<close>

definition engine_command :: "environment \<Rightarrow> string \<Rightarrow> bool \<Rightarrow> string list \<times> string" where
  "engine_command env test_type parallel =
     (let cmd = [''python'', ''-m'', ''pytest''];
          cmd = (if test_type \<noteq> ''all'' then cmd @ [''-m'', test_type] else cmd);
          cmd = cmd @ [''-v''];
          report_name = test_type @ ''_test_report_'' @ report_stamp env @ ''.html'';
          cmd = cmd @ [''--html'', path_join (reports_dir env) report_name];
          cmd = cmd @ [''--self-contained-html''];
          junit_name = ''junit_'' @ test_type @ ''_'' @ junit_stamp env @ ''.xml'';
          cmd = cmd @ [''--junit-xml'', path_join (reports_dir env) junit_name];
          cmd = (if parallel then cmd @ [''-n'', ''auto''] else cmd)
      in (cmd, report_name))"

definition engine_environment :: "environment \<Rightarrow> string \<Rightarrow> bool \<Rightarrow> (string \<rightharpoonup> string)" where
  "engine_environment env browser headless =
     (let child_env = os_environ env;
          child_env = (if headless then child_env(''HEADLESS'' \<mapsto> ''true'') else child_env)
      in child_env(''BROWSER'' \<mapsto> browser))"

text \<open>
  \<open>run_tests\<close>: the banner, then the \<open>try\<close> block. A completed engine process,
  whatever its exit status, is followed by the dashboard and the summary; an exception
  of the \<open>try\<close> block is printed and the run reported as failed.
\<close>

definition run_tests ::
  "environment \<Rightarrow> string \<Rightarrow> string \<Rightarrow> bool \<Rightarrow> bool \<Rightarrow> event list \<times> bool" where
  "run_tests env test_type browser headless parallel =
     (let (cmd, report_name) = engine_command env test_type parallel;
          child_env = engine_environment env browser headless;
          before = [PrintBanner test_type browser headless parallel, PrintExecuting cmd, CallEngine cmd]
      in case engine env cmd child_env of
           Returns result \<Rightarrow>
             (before
              @ (if stdout result \<noteq> [] then [PrintTestOutput (stdout result)] else [])
              @ (if stderr result \<noteq> [] then [PrintWarningsErrors (stderr result)] else [])
              @ generate_dashboard env
              @ print_summary env (returncode result) report_name,
              returncode result = 0)
         | Raises e \<Rightarrow> (before @ [PrintErrorRunningTests e], False))"

text \<open>
  The listing of \<open>--list\<close> prints only, inside its own \<open>try\<close>; its lines are not
  modelled.
\<close>

definition list_available_tests :: "environment \<Rightarrow> event list" where
  "list_available_tests env = [PrintAvailableTests]"

record args =
  arg_type :: string
  arg_browser :: string
  arg_headless :: bool
  arg_parallel :: bool
  arg_list :: bool
  arg_dashboard_only :: bool

text \<open>
  \<open>main\<close>: the events of the process and its exit status. Creating the three
  directories is the first thing \<open>TestRunner()\<close> does, outside any handler, and an
  uncaught exception ends a Python process with status 1. A plain \<open>return\<close> from
  \<open>main\<close> ends it with status 0.
\<close>

definition run_tests_main :: "environment \<Rightarrow> args \<Rightarrow> event list \<times> int" where
  "run_tests_main env args =
     (case mkdir_error env of
        Some msg \<Rightarrow> ([UncaughtException msg], 1)
      | None \<Rightarrow>
          if arg_list args then (list_available_tests env, 0)
          else if arg_dashboard_only args then (generate_dashboard env, 0)
          else (let (trace, success) =
                      run_tests env (arg_type args) (arg_browser args)
                        (arg_headless args) (arg_parallel args)
                in (trace, if success then 0 else 1)))"

section \<open>Rounding: how far a float is from the exact value\<close>

text \<open>
  The bit length brackets a positive integer between two powers of two; from there the
  exponent chosen by \<open>floor_log2\<close> brackets the fraction, and the rounded mantissa is
  within half a unit of the scaled fraction.
\<close>

lemma bit_length_nonneg: "0 \<le> bit_length n"
proof (induction n rule: bit_length.induct)
  case (1 n)
  show ?case
  proof (cases "n \<le> 0")
    case True
    then show ?thesis by (subst bit_length.simps) simp
  next
    case False
    with "1.IH" have "0 \<le> bit_length (n div 2)" by simp
    with False show ?thesis by (subst bit_length.simps) simp
  qed
qed

lemma bit_length_bounds:
  "0 < n \<Longrightarrow> 2 ^ nat (bit_length n - 1) \<le> n \<and> n < 2 ^ nat (bit_length n)"
proof (induction n rule: bit_length.induct)
  case (1 n)
  have unfold: "bit_length n = 1 + bit_length (n div 2)"
    using "1.prems" by (subst bit_length.simps) simp
  show ?case
  proof (cases "n = 1")
    case True
    have "bit_length (1 div 2) = 0" by (subst bit_length.simps) simp
    with unfold True show ?thesis by simp
  next
    case False
    with "1.prems" have half: "0 < n div 2" by simp
    define b where "b = bit_length (n div 2)"
    from "1.IH" "1.prems" half
    have ih: "2 ^ nat (b - 1) \<le> n div 2 \<and> n div 2 < 2 ^ nat b"
      by (simp add: b_def)
    have bpos: "0 < b"
    proof (rule ccontr)
      assume "\<not> 0 < b"
      then have "nat b = 0" by simp
      with ih half show False by simp
    qed
    then have step: "(2::int) ^ nat b = 2 * 2 ^ nat (b - 1)"
      by (metis Suc_nat_eq_nat_zadd1 add.commute diff_add_cancel diff_ge_0_iff_ge int_one_le_iff_zero_less power_Suc)
    have succ: "(2::int) ^ nat (1 + b) = 2 * 2 ^ nat b"
      using bpos by (simp add: nat_add_distrib)
    have halves: "2 * (n div 2) \<le> n" "n < 2 * (n div 2) + 2"
      by presburger+
    have lower: "2 ^ nat (bit_length n - 1) \<le> n"
      using ih step unfold halves by (simp add: b_def [symmetric])
    have upper: "n < 2 ^ nat (bit_length n)"
      using ih succ unfold halves by (simp add: b_def [symmetric])
    from lower upper show ?thesis by simp
  qed
qed

lemma bit_length_pos: "0 < n \<Longrightarrow> 0 < bit_length n"
  using bit_length_nonneg [of "n div 2"] by (subst bit_length.simps) simp

lemma shift_frac_val:
  assumes "0 < d" and "shift_frac n d k = (a, b)"
  shows "0 < b \<and> (of_int a :: rat) / of_int b = of_int n / of_int d * 2 powi k"
proof (cases "0 \<le> k")
  case True
  with assms have "a = n * 2 ^ nat k" and "b = d"
    by (simp_all add: shift_frac_def)
  with assms True show ?thesis
    by (simp add: power_int_nonneg_exp)
next
  case False
  with assms have ab: "a = n" "b = d * 2 ^ nat (- k)"
    by (simp_all add: shift_frac_def)
  have "(2::rat) powi k = inverse (2 ^ nat (- k))"
    using False by (simp add: power_int_def power_one_over inverse_eq_divide)
  with ab assms show ?thesis
    by (simp add: field_simps)
qed

lemma shift_frac_nonneg:
  "0 \<le> n \<Longrightarrow> shift_frac n d k = (a, b) \<Longrightarrow> 0 \<le> a"
  by (auto simp: shift_frac_def split: if_splits)

lemma shift_frac_pos:
  "0 < n \<Longrightarrow> shift_frac n d k = (a, b) \<Longrightarrow> 0 < a"
  by (auto simp: shift_frac_def split: if_splits)

lemma round_half_even_nonneg:
  "0 \<le> n \<Longrightarrow> 0 < d \<Longrightarrow> 0 \<le> round_half_even n d"
  by (simp add: round_half_even_def Let_def pos_imp_zdiv_nonneg_iff)

lemma round_half_even_error:
  assumes "0 \<le> n" and "0 < d"
  shows "\<bar>of_int (round_half_even n d) - (of_int n :: rat) / of_int d\<bar> \<le> 1 / 2"
proof -
  define q where "q = n div d"
  define r where "r = n mod d"
  have r: "0 \<le> r" "r < d" using assms by (simp_all add: r_def)
  have "n = q * d + r" by (simp add: q_def r_def)
  then have "(of_int n :: rat) = of_int q * of_int d + of_int r"
    by (metis of_int_add of_int_mult)
  then have frac: "(of_int n :: rat) / of_int d = of_int q + of_int r / of_int d"
    using assms by (simp add: field_simps)
  have rd: "0 \<le> (of_int r :: rat) / of_int d" using r assms by simp
  consider "2 * r < d" | "d < 2 * r" | "2 * r = d" by linarith
  then show ?thesis
  proof cases
    case 1
    then have "round_half_even n d = q"
      by (simp add: round_half_even_def Let_def q_def r_def)
    moreover from 1 have "(of_int r :: rat) / of_int d \<le> 1 / 2"
    proof -
      from 1 have "(of_int (2 * r) :: rat) \<le> of_int d" by (simp only: of_int_le_iff)
      then show ?thesis using assms by (simp add: field_simps)
    qed
    ultimately show ?thesis using frac rd by simp
  next
    case 2
    then have "round_half_even n d = q + 1"
      by (simp add: round_half_even_def Let_def q_def r_def)
    moreover have "1 / 2 \<le> (of_int r :: rat) / of_int d"
    proof -
      from 2 have "(of_int d :: rat) \<le> of_int (2 * r)" by (simp only: of_int_le_iff)
      then show ?thesis using assms by (simp add: field_simps)
    qed
    moreover have "(of_int r :: rat) / of_int d \<le> 1"
      using r assms by (simp add: field_simps)
    ultimately show ?thesis using frac by simp
  next
    case 3
    then have "(of_int (2 * r) :: rat) = of_int d" by simp
    then have half: "(of_int r :: rat) / of_int d = 1 / 2"
      using assms by (simp add: field_simps)
    have "round_half_even n d = q \<or> round_half_even n d = q + 1"
      by (simp add: round_half_even_def Let_def q_def r_def)
    then show ?thesis using frac half by auto
  qed
qed


lemma pow2_pos: "0 < (2::rat) powi e"
  by (simp add: power_int_def)

lemma pow2_add: "(2::rat) powi (a + b) = 2 powi a * 2 powi b"
  by (simp add: power_int_add)

lemma pow2_diff: "(2::rat) powi (a - b) = 2 powi a / 2 powi b"
  by (simp add: power_int_diff)

lemma pow2_of_int: "0 \<le> k \<Longrightarrow> (of_int (2 ^ nat k) :: rat) = 2 powi k"
  by (simp add: power_int_nonneg_exp)

lemma bit_length_rat:
  assumes "0 < n"
  shows "2 powi (bit_length n - 1) \<le> (of_int n :: rat) \<and> (of_int n :: rat) < 2 powi (bit_length n)"
proof -
  from bit_length_bounds [OF assms]
  have lo: "2 ^ nat (bit_length n - 1) \<le> n" and hi: "n < 2 ^ nat (bit_length n)" by simp_all
  have pos: "0 \<le> bit_length n - 1" "0 \<le> bit_length n"
    using bit_length_pos [OF assms] by simp_all
  from lo have "(of_int (2 ^ nat (bit_length n - 1)) :: rat) \<le> of_int n"
    by (simp only: of_int_le_iff)
  moreover from hi have "(of_int n :: rat) < of_int (2 ^ nat (bit_length n))"
    by (simp only: of_int_less_iff)
  ultimately show ?thesis
    using pos by (simp only: pow2_of_int)
qed

lemma floor_log2_bounds:
  assumes "0 < n" and "0 < d"
  shows "2 powi (floor_log2 n d) \<le> (of_int n :: rat) / of_int d
       \<and> (of_int n :: rat) / of_int d < 2 powi (floor_log2 n d + 1)"
proof -
  define x :: rat where "x = of_int n / of_int d"
  define k where "k = bit_length n - bit_length d"
  obtain a b where ab: "shift_frac n d (- k) = (a, b)"
    by (cases "shift_frac n d (- k)")
  from shift_frac_val [OF assms(2) ab]
  have b: "0 < b" and val: "(of_int a :: rat) / of_int b = x * 2 powi (- k)"
    by (simp_all add: x_def)
  have fl: "floor_log2 n d = (if b \<le> a then k else k - 1)"
    using ab by (simp add: floor_log2_def k_def Let_def)
  have dpos: "(0::rat) < of_int d" using assms by simp
  from bit_length_rat [OF assms(1)] bit_length_rat [OF assms(2)]
  have n_lo: "2 powi (bit_length n - 1) \<le> (of_int n :: rat)"
   and n_hi: "(of_int n :: rat) < 2 powi (bit_length n)"
   and d_lo: "2 powi (bit_length d - 1) \<le> (of_int d :: rat)"
   and d_hi: "(of_int d :: rat) < 2 powi (bit_length d)"
    by simp_all
  have coarse_hi: "x < 2 powi (k + 1)"
  proof -
    have "x * of_int d = of_int n" using dpos by (simp add: x_def)
    have "2 powi (k + 1) * (2::rat) powi (bit_length d - 1) = 2 powi (bit_length n)"
      by (simp add: pow2_add [symmetric] k_def)
    then have "of_int n < 2 powi (k + 1) * (2::rat) powi (bit_length d - 1)"
      using n_hi by simp
    also have "\<dots> \<le> 2 powi (k + 1) * of_int d"
      using d_lo pow2_pos [of "k + 1"] by (simp add: mult_left_mono)
    finally show ?thesis using dpos by (simp add: x_def field_simps)
  qed
  have coarse_lo: "2 powi (k - 1) \<le> x"
  proof -
    have "2 powi (k - 1) * (2::rat) powi (bit_length d) = 2 powi (bit_length n - 1)"
      by (simp add: pow2_add [symmetric] k_def)
    have "2 powi (k - 1) * of_int d \<le> 2 powi (k - 1) * (2::rat) powi (bit_length d)"
      using d_hi pow2_pos [of "k - 1"] by (simp add: mult_left_mono)
    also have "\<dots> = 2 powi (bit_length n - 1)"
      by (simp add: pow2_add [symmetric] k_def)
    also have "\<dots> \<le> of_int n" by (rule n_lo)
    finally show ?thesis using dpos by (simp add: x_def field_simps)
  qed
  have scaled: "(of_int a :: rat) / of_int b = x / 2 powi k"
    using val by (simp add: power_int_minus field_simps)
  have cmp: "b \<le> a \<longleftrightarrow> 2 powi k \<le> x"
  proof -
    have "b \<le> a \<longleftrightarrow> (of_int b :: rat) \<le> of_int a" by simp
    also have "\<dots> \<longleftrightarrow> 1 \<le> (of_int a :: rat) / of_int b"
      using b by (simp add: field_simps)
    also have "\<dots> \<longleftrightarrow> 2 powi k \<le> x"
      using pow2_pos [of k] by (simp add: scaled field_simps)
    finally show ?thesis .
  qed
  show ?thesis
  proof (cases "b \<le> a")
    case True
    with fl cmp coarse_hi show ?thesis by (simp add: x_def)
  next
    case False
    with cmp have "x < 2 powi k" by simp
    with fl False coarse_lo show ?thesis by (simp add: x_def)
  qed
qed

lemma round_double_error:
  assumes "0 < n" and "0 < d" and "round_double n d = (m, e)"
  shows "0 \<le> m \<and> e = max (floor_log2 n d) (- 1022) - 52
       \<and> \<bar>of_int m * 2 powi e - (of_int n :: rat) / of_int d\<bar> \<le> 2 powi e / 2"
proof -
  define x :: rat where "x = of_int n / of_int d"
  have e: "e = max (floor_log2 n d) (- 1022) - 52"
    using assms(3) by (simp add: round_double_def Let_def split: prod.splits)
  obtain a b where ab: "shift_frac n d (- e) = (a, b)"
    by (cases "shift_frac n d (- e)")
  have m: "m = round_half_even a b"
    using assms(3) ab e by (simp add: round_double_def Let_def)
  from shift_frac_val [OF assms(2) ab]
  have b: "0 < b" and val: "(of_int a :: rat) / of_int b = x * 2 powi (- e)"
    by (simp_all add: x_def)
  have a: "0 \<le> a" using shift_frac_nonneg [OF _ ab] assms(1) by simp
  have m_nonneg: "0 \<le> m" using round_half_even_nonneg [OF a b] m by simp
  have "\<bar>of_int m - (of_int a :: rat) / of_int b\<bar> \<le> 1 / 2"
    using round_half_even_error [OF a b] m by simp
  then have "\<bar>of_int m - x * 2 powi (- e)\<bar> * 2 powi e \<le> 1 / 2 * 2 powi e"
    using pow2_pos [of e] val by (simp add: mult_right_mono)
  moreover have "\<bar>of_int m - x * 2 powi (- e)\<bar> * 2 powi e = \<bar>of_int m * 2 powi e - x\<bar>"
  proof -
    have "\<bar>of_int m - x * 2 powi (- e)\<bar> * 2 powi e = \<bar>(of_int m - x * 2 powi (- e)) * 2 powi e\<bar>"
      using pow2_pos [of e] by (simp add: abs_mult)
    also have "(of_int m - x * 2 powi (- e)) * 2 powi e = of_int m * 2 powi e - x"
      using pow2_pos [of e] by (simp add: power_int_minus field_simps)
    finally show ?thesis .
  qed
  ultimately have "\<bar>of_int m * 2 powi e - x\<bar> \<le> 2 powi e / 2" by simp
  with m_nonneg e show ?thesis unfolding x_def by blast
qed

lemma too_large_iff:
  assumes "0 \<le> m"
  shows "too_large (m, e) \<longleftrightarrow> (2::rat) powi 1024 \<le> of_int m * 2 powi e"
proof (cases "0 \<le> e")
  case True
  have "too_large (m, e) \<longleftrightarrow> (2::int) ^ 1024 \<le> m * 2 ^ nat e"
    using True by (simp only: too_large_def prod.case if_True)
  also have "\<dots> \<longleftrightarrow> (of_int ((2::int) ^ 1024) :: rat) \<le> of_int (m * 2 ^ nat e)"
    by (simp only: of_int_le_iff)
  also have "\<dots> \<longleftrightarrow> (2::rat) powi 1024 \<le> of_int m * 2 powi e"
    using True by (simp only: of_int_mult pow2_of_int) simp
  finally show ?thesis .
next
  case False
  then have neg: "0 \<le> 1024 - e" by simp
  have "too_large (m, e) \<longleftrightarrow> (2::int) ^ nat (1024 - e) \<le> m"
    using False by (simp only: too_large_def prod.case if_False)
  also have "\<dots> \<longleftrightarrow> (of_int ((2::int) ^ nat (1024 - e)) :: rat) \<le> of_int m"
    by (simp only: of_int_le_iff)
  also have "\<dots> \<longleftrightarrow> (2::rat) powi (1024 - e) \<le> of_int m"
    using neg by (simp only: pow2_of_int)
  also have "\<dots> \<longleftrightarrow> (2::rat) powi 1024 \<le> of_int m * 2 powi e"
    using pow2_pos [of e] by (simp add: pow2_diff field_simps)
  finally show ?thesis .
qed


lemma round_double_below:
  assumes "0 < n" and "0 < d" and "round_double n d = (m, e)"
    and "(of_int n :: rat) / of_int d < 2 powi K" and "- 1021 \<le> K"
  shows "0 \<le> m \<and> \<bar>of_int m * 2 powi e - (of_int n :: rat) / of_int d\<bar> \<le> 2 powi (K - 54)"
proof -
  from round_double_error [OF assms(1-3)]
  have m: "0 \<le> m" and e: "e = max (floor_log2 n d) (- 1022) - 52"
    and err: "\<bar>of_int m * 2 powi e - (of_int n :: rat) / of_int d\<bar> \<le> 2 powi e / 2"
    by blast+
  from floor_log2_bounds [OF assms(1,2)] assms(4)
  have "(2::rat) powi (floor_log2 n d) < 2 powi K" by simp
  then have "floor_log2 n d < K"
    using power_int_increasing [of K "floor_log2 n d" "2::rat"] by (cases "floor_log2 n d < K") simp_all
  with assms(5) e have "e - 1 \<le> K - 54" by simp
  then have "(2::rat) powi (e - 1) \<le> 2 powi (K - 54)"
    by (simp add: power_int_increasing)
  moreover have "(2::rat) powi e / 2 = 2 powi (e - 1)"
    by (simp add: pow2_diff)
  ultimately show ?thesis using m err by simp
qed


lemma int_true_div_fraction:
  assumes "0 < p" and "p \<le> t"
  shows "\<exists>m e. int_true_div p t = Inr (Finite False m e) \<and> 0 \<le> m
           \<and> \<bar>of_int m * 2 powi e - (of_int p :: rat) / of_int t\<bar> \<le> 2 powi (- 53)"
proof -
  from assms have t: "0 < t" by simp
  obtain m e where r: "round_double p t = (m, e)"
    by (cases "round_double p t")
  have "(of_int p :: rat) / of_int t \<le> 1"
    using assms t by (simp add: field_simps)
  then have lt: "(of_int p :: rat) / of_int t < 2 powi 1" by simp
  from round_double_below [OF assms(1) t r lt]
  have m: "0 \<le> m" and err: "\<bar>of_int m * 2 powi e - (of_int p :: rat) / of_int t\<bar> \<le> 2 powi (- 53)"
    by simp_all
  from err lt have "of_int m * 2 powi e < (2::rat) powi 1 + 2 powi (- 53)"
    by linarith
  also have "\<dots> < 2 powi 1024" by simp
  finally have "\<not> too_large (m, e)"
    using too_large_iff [OF m, of e] by simp
  with r assms t m err show ?thesis
    by (simp add: int_true_div_def Let_def)
qed

lemma float_mul_100:
  assumes "0 \<le> m" and "of_int m * 2 powi e \<le> (1::rat) + 2 powi (- 53)"
  shows "\<exists>m' e'. float_mul (Finite False m e) (float_of_small_int 100) = Finite False m' e'
           \<and> 0 \<le> m'
           \<and> \<bar>of_int m' * 2 powi e' - of_int m * 2 powi e * (100::rat)\<bar> \<le> 2 powi (- 47)"
proof (cases "m = 0")
  case True
  then have "float_mul (Finite False m e) (float_of_small_int 100) = Finite False 0 0"
    by (simp add: float_of_small_int_def)
  with True show ?thesis by simp
next
  case False
  with assms have mpos: "0 < m * 100" by simp
  obtain a b where ab: "shift_frac (m * 100) 1 (e + 0) = (a, b)"
    by (cases "shift_frac (m * 100) 1 (e + 0)")
  from shift_frac_val [OF _ ab]
  have b: "0 < b" and val: "(of_int a :: rat) / of_int b = of_int m * 2 powi e * 100"
    by simp_all
  have a: "0 < a" using shift_frac_pos [OF mpos ab] .
  obtain m' e' where r: "round_double a b = (m', e')"
    by (cases "round_double a b")
  have "of_int m * 2 powi e * (100::rat) \<le> (1 + 2 powi (- 53)) * 100"
    using assms(2) by (simp add: mult_right_mono)
  also have "\<dots> < 2 powi 7" by simp
  finally have lt: "(of_int a :: rat) / of_int b < 2 powi 7" using val by simp
  from round_double_below [OF a b r lt]
  have m': "0 \<le> m'" and err: "\<bar>of_int m' * 2 powi e' - (of_int a :: rat) / of_int b\<bar> \<le> 2 powi (- 47)"
    by simp_all
  from err lt have "of_int m' * 2 powi e' < (2::rat) powi 7 + 2 powi (- 47)"
    by linarith
  also have "\<dots> < 2 powi 1024" by simp
  finally have "\<not> too_large (m', e')"
    using too_large_iff [OF m', of e'] by simp
  with False ab r m' err val show ?thesis
    by (simp add: float_of_small_int_def Let_def)
qed

section \<open>The two counting paths: what their summaries satisfy\<close>

lemma length_filter_two:
  "length (filter (\<lambda>r. status r = ''PASSED'') xs) + length (filter (\<lambda>r. status r = ''FAILED'') xs) \<le> length xs"
  by (induction xs) auto

lemma length_filter_two_eq:
  "length (filter (\<lambda>r. status r = ''PASSED'') xs) + length (filter (\<lambda>r. status r = ''FAILED'') xs) = length xs
   \<longleftrightarrow> (\<forall>r \<in> set xs. status r = ''PASSED'' \<or> status r = ''FAILED'')"
proof (induction xs)
  case Nil
  then show ?case by simp
next
  case (Cons x xs)
  have le: "length (filter (\<lambda>r. status r = ''PASSED'') xs) + length (filter (\<lambda>r. status r = ''FAILED'') xs) \<le> length xs"
    by (rule length_filter_two)
  show ?case using Cons le by auto
qed

lemma int_true_div_returns:
  assumes "0 \<le> p" and "p \<le> t" and "0 < t"
  shows "\<exists>q. int_true_div p t = Inr q"
proof (cases "p = 0")
  case True
  with assms show ?thesis by (simp add: int_true_div_def)
next
  case False
  with assms have "0 < p" by simp
  from int_true_div_fraction [OF this assms(2)] show ?thesis by blast
qed

lemma generate_report_summary:
  "\<exists>rate. generate_report self end_time total_duration =
     Inr \<lparr>report_summary =
            [''total_tests'' \<mapsto> JInt (int (length (results self))),
             ''passed'' \<mapsto> JInt (int (length (filter (\<lambda>r. status r = ''PASSED'') (results self)))),
             ''failed'' \<mapsto> JInt (int (length (filter (\<lambda>r. status r = ''FAILED'') (results self)))),
             ''pass_rate'' \<mapsto> JStr rate,
             ''start_time'' \<mapsto> JStr (start_time self),
             ''end_time'' \<mapsto> JStr end_time,
             ''duration'' \<mapsto> JStr (format_f 2 total_duration @ ''s'')],
           report_test_results = results self\<rparr>"
proof (cases "results self = []")
  case True
  then show ?thesis
    by (intro exI [of _ "''0%''"]) (simp add: generate_report_def)
next
  case False
  define p where "p = int (length (filter (\<lambda>r. status r = ''PASSED'') (results self)))"
  define t where "t = int (length (results self))"
  have "0 \<le> p" "p \<le> t" "0 < t"
    using False by (simp_all add: p_def t_def)
  from int_true_div_returns [OF this] obtain q where "int_true_div p t = Inr q" by blast
  with False show ?thesis
    by (intro exI [of _ "format_f 1 (float_mul q (float_of_small_int 100)) @ ''%''"])
       (simp add: generate_report_def Let_def p_def [symmetric] t_def [symmetric])
qed

text \<open>
  Claim C8, as the code has it. The summary of the session-finish hook always satisfies
  \<open>total_tests = passed + failed\<close>, because \<open>passed\<close> is computed as the difference; with
  the engine's two counters non-negative, \<open>total_tests\<close> and \<open>failed\<close> are non-negative,
  and \<open>passed\<close> is non-negative exactly when no more failures than collected tests were
  counted. The summary of the reporter has three non-negative counts with
  \<open>passed + failed \<le> total_tests\<close>, and equality exactly when every recorded status is
  \<open>PASSED\<close> or \<open>FAILED\<close>. Computing the reporter's summary never fails: its one
  division is guarded and cannot overflow.
\<close>

theorem run_summary_counts:
  "(0 \<le> testscollected s \<and> 0 \<le> testsfailed s \<longrightarrow>
     (\<exists>total p f.
        pytest_sessionfinish s exitstatus end_time ''total_tests'' = Some (JInt total) \<and>
        pytest_sessionfinish s exitstatus end_time ''passed'' = Some (JInt p) \<and>
        pytest_sessionfinish s exitstatus end_time ''failed'' = Some (JInt f) \<and>
        total = p + f \<and> 0 \<le> total \<and> 0 \<le> f \<and>
        (0 \<le> p \<longleftrightarrow> testsfailed s \<le> testscollected s))) \<and>
     (\<exists>rep total p f.
        generate_report self end_time' total_duration = Inr rep \<and>
        report_summary rep ''total_tests'' = Some (JInt total) \<and>
        report_summary rep ''passed'' = Some (JInt p) \<and>
        report_summary rep ''failed'' = Some (JInt f) \<and>
        0 \<le> total \<and> 0 \<le> p \<and> 0 \<le> f \<and> p + f \<le> total \<and>
        (total = p + f \<longleftrightarrow>
           (\<forall>r \<in> set (results self). status r = ''PASSED'' \<or> status r = ''FAILED'')))"
proof (intro conjI impI)
  assume "0 \<le> testscollected s \<and> 0 \<le> testsfailed s"
  then show "\<exists>total p f.
        pytest_sessionfinish s exitstatus end_time ''total_tests'' = Some (JInt total) \<and>
        pytest_sessionfinish s exitstatus end_time ''passed'' = Some (JInt p) \<and>
        pytest_sessionfinish s exitstatus end_time ''failed'' = Some (JInt f) \<and>
        total = p + f \<and> 0 \<le> total \<and> 0 \<le> f \<and>
        (0 \<le> p \<longleftrightarrow> testsfailed s \<le> testscollected s)"
    by (simp add: pytest_sessionfinish_def Let_def)
next
  let ?xs = "results self"
  let ?p = "length (filter (\<lambda>r. status r = ''PASSED'') ?xs)"
  let ?f = "length (filter (\<lambda>r. status r = ''FAILED'') ?xs)"
  from generate_report_summary [of self end_time' total_duration]
  obtain rep where rep: "generate_report self end_time' total_duration = Inr rep"
    and tot: "report_summary rep ''total_tests'' = Some (JInt (int (length ?xs)))"
    and pas: "report_summary rep ''passed'' = Some (JInt (int ?p))"
    and fai: "report_summary rep ''failed'' = Some (JInt (int ?f))"
    by auto
  have le: "int ?p + int ?f \<le> int (length ?xs)"
    using length_filter_two [of ?xs] by simp
  have eq: "int (length ?xs) = int ?p + int ?f
              \<longleftrightarrow> (\<forall>r \<in> set ?xs. status r = ''PASSED'' \<or> status r = ''FAILED'')"
    using length_filter_two_eq [of ?xs] by auto
  from rep tot pas fai le eq
  show "\<exists>rep total p f.
        generate_report self end_time' total_duration = Inr rep \<and>
        report_summary rep ''total_tests'' = Some (JInt total) \<and>
        report_summary rep ''passed'' = Some (JInt p) \<and>
        report_summary rep ''failed'' = Some (JInt f) \<and>
        0 \<le> total \<and> 0 \<le> p \<and> 0 \<le> f \<and> p + f \<le> total \<and>
        (total = p + f \<longleftrightarrow>
           (\<forall>r \<in> set (results self). status r = ''PASSED'' \<or> status r = ''FAILED''))"
    by (intro exI [of _ rep] exI [of _ "int (length ?xs)"] exI [of _ "int ?p"] exI [of _ "int ?f"]) simp
qed


theorem run_summary_counts_witness:
  "0 \<le> testscollected \<lparr>testscollected = 9, testsfailed = 2\<rparr> \<and>
   0 \<le> testsfailed \<lparr>testscollected = 9, testsfailed = 2\<rparr> \<and>
   (\<exists>total p f.
      pytest_sessionfinish \<lparr>testscollected = 9, testsfailed = 2\<rparr> 1 ''2026-01-01T10:00:00''
        ''total_tests'' = Some (JInt total) \<and>
      pytest_sessionfinish \<lparr>testscollected = 9, testsfailed = 2\<rparr> 1 ''2026-01-01T10:00:00''
        ''passed'' = Some (JInt p) \<and>
      pytest_sessionfinish \<lparr>testscollected = 9, testsfailed = 2\<rparr> 1 ''2026-01-01T10:00:00''
        ''failed'' = Some (JInt f) \<and>
      total = p + f \<and> 0 \<le> total \<and> 0 \<le> f \<and> 0 \<le> p)"
  using run_summary_counts [of "\<lparr>testscollected = 9, testsfailed = 2\<rparr>" 1 "''2026-01-01T10:00:00''"
          "\<lparr>results = [] :: unit result_record list, start_time = ''2026-01-01T09:00:00''\<rparr>"
          "''2026-01-01T10:00:00''" "Finite False 0 0"]
  by simp

text \<open>
  The invariant as the specification words it fails on both paths: a session whose
  counters read one collected test and two failures (the engine counts failure reports,
  and a test that fails and whose teardown fails too has two) gives \<open>passed = -1\<close>, and
  a reporter holding one result of status \<open>SKIPPED\<close> gives \<open>total_tests = 1\<close> with
  \<open>passed = failed = 0\<close>.
\<close>

theorem run_summary_invariant_counterexample:
  "pytest_sessionfinish \<lparr>testscollected = 1, testsfailed = 2\<rparr> 1 ''2026-01-01T10:00:00'' ''passed''
     = Some (JInt (- 1)) \<and>
   \<not> isl (generate_report
            (add_result \<lparr>results = [], start_time = ''2026-01-01T09:00:00''\<rparr>
               ''test_x'' ''SKIPPED'' () ''2026-01-01T09:30:00'' (Finite False 0 0))
            ''2026-01-01T10:00:00'' (Finite False 3600 0)) \<and>
   report_summary (projr (generate_report
            (add_result \<lparr>results = [], start_time = ''2026-01-01T09:00:00''\<rparr>
               ''test_x'' ''SKIPPED'' () ''2026-01-01T09:30:00'' (Finite False 0 0))
            ''2026-01-01T10:00:00'' (Finite False 3600 0))) ''total_tests'' = Some (JInt 1) \<and>
   report_summary (projr (generate_report
            (add_result \<lparr>results = [], start_time = ''2026-01-01T09:00:00''\<rparr>
               ''test_x'' ''SKIPPED'' () ''2026-01-01T09:30:00'' (Finite False 0 0))
            ''2026-01-01T10:00:00'' (Finite False 3600 0))) ''passed'' = Some (JInt 0) \<and>
   report_summary (projr (generate_report
            (add_result \<lparr>results = [], start_time = ''2026-01-01T09:00:00''\<rparr>
               ''test_x'' ''SKIPPED'' () ''2026-01-01T09:30:00'' (Finite False 0 0))
            ''2026-01-01T10:00:00'' (Finite False 3600 0))) ''failed'' = Some (JInt 0)"
  by (simp add: pytest_sessionfinish_def generate_report_def add_result_def int_true_div_def
        float_of_small_int_def)

section \<open>The page, piece by piece\<close>

text \<open>
  A loop that appends one text per element appends the concatenation of the texts. With
  that, the page is its head, the entries of the detailed results, the closing of that
  list, the screenshot section when there is a screenshot, and the tail.
\<close>

lemma foldl_append_concat:
  "foldl (\<lambda>acc x. acc @ f x) acc0 xs = acc0 @ concat (map f xs)"
  by (induction xs arbitrary: acc0) simp_all

lemma generate_dashboard_html_sections:
  "generate_dashboard_html r generated_on =
     (let summary = results_get (summary r) Map.empty;
          total_tests = dict_get summary ''total_tests'' (JInt 0);
          passed = dict_get summary ''passed'' (JInt 0);
          failed = dict_get summary ''failed'' (JInt 0);
          test_details = results_get (test_details r) [];
          screenshots = results_get (screenshots r) []
      in case pass_rate total_tests passed of
           Inl e \<Rightarrow> Inl e
         | Inr rate \<Rightarrow>
             Inr (page_head total_tests passed failed rate
                  @ concat (map test_item test_details)
                  @ text_block details_close_lines
                  @ (if screenshots = [] then []
                     else text_block screenshots_open_lines
                          @ concat (map (\<lambda>s. text_block (screenshot_item_lines s)) (take 12 screenshots))
                          @ text_block screenshots_close_lines)
                  @ page_tail generated_on passed failed))"
  by (simp add: generate_dashboard_html_def Let_def foldl_append_concat split: sum.splits)

text \<open>
  A successful rendering, read backwards: the value of the pass rate and the five pieces
  of the page. The time stamp sits in the second line of the tail, and the chart data in
  the lines after the tail's first six.
\<close>

lemma generate_dashboard_html_Inr:
  assumes "generate_dashboard_html r generated_on = Inr html"
  shows "\<exists>rate.
     pass_rate (dict_get (results_get (summary r) Map.empty) ''total_tests'' (JInt 0))
               (dict_get (results_get (summary r) Map.empty) ''passed'' (JInt 0)) = Inr rate \<and>
     html = page_head (dict_get (results_get (summary r) Map.empty) ''total_tests'' (JInt 0))
                      (dict_get (results_get (summary r) Map.empty) ''passed'' (JInt 0))
                      (dict_get (results_get (summary r) Map.empty) ''failed'' (JInt 0)) rate
            @ concat (map test_item (results_get (test_details r) []))
            @ text_block details_close_lines
            @ (if results_get (screenshots r) [] = [] then []
               else text_block screenshots_open_lines
                    @ concat (map (\<lambda>s. text_block (screenshot_item_lines s))
                               (take 12 (results_get (screenshots r) [])))
                    @ text_block screenshots_close_lines)
            @ page_tail generated_on
                (dict_get (results_get (summary r) Map.empty) ''passed'' (JInt 0))
                (dict_get (results_get (summary r) Map.empty) ''failed'' (JInt 0))"
  using assms
  by (auto simp: generate_dashboard_html_sections Let_def split: sum.splits)

lemma generate_dashboard_html_isl:
  "isl (generate_dashboard_html r generated_on)
     = isl (pass_rate (dict_get (results_get (summary r) Map.empty) ''total_tests'' (JInt 0))
                      (dict_get (results_get (summary r) Map.empty) ''passed'' (JInt 0)))"
  by (simp add: generate_dashboard_html_sections Let_def split: sum.splits)

lemma generate_dashboard_html_tail:
  assumes "generate_dashboard_html r generated_on = Inr html"
  shows "\<exists>front. html = front @ page_tail generated_on
           (dict_get (results_get (summary r) Map.empty) ''passed'' (JInt 0))
           (dict_get (results_get (summary r) Map.empty) ''failed'' (JInt 0))"
proof -
  let ?tail = "page_tail generated_on
                (dict_get (results_get (summary r) Map.empty) ''passed'' (JInt 0))
                (dict_get (results_get (summary r) Map.empty) ''failed'' (JInt 0))"
  from generate_dashboard_html_Inr [OF assms]
  obtain rate where h: "html = page_head (dict_get (results_get (summary r) Map.empty) ''total_tests'' (JInt 0))
                      (dict_get (results_get (summary r) Map.empty) ''passed'' (JInt 0))
                      (dict_get (results_get (summary r) Map.empty) ''failed'' (JInt 0)) rate
            @ concat (map test_item (results_get (test_details r) []))
            @ text_block details_close_lines
            @ (if results_get (screenshots r) [] = [] then []
               else text_block screenshots_open_lines
                    @ concat (map (\<lambda>s. text_block (screenshot_item_lines s))
                               (take 12 (results_get (screenshots r) [])))
                    @ text_block screenshots_close_lines)
            @ ?tail"
    by (elim exE conjE)
  show ?thesis
    by (rule exI [of _ "page_head (dict_get (results_get (summary r) Map.empty) ''total_tests'' (JInt 0))
                      (dict_get (results_get (summary r) Map.empty) ''passed'' (JInt 0))
                      (dict_get (results_get (summary r) Map.empty) ''failed'' (JInt 0)) rate
            @ concat (map test_item (results_get (test_details r) []))
            @ text_block details_close_lines
            @ (if results_get (screenshots r) [] = [] then []
               else text_block screenshots_open_lines
                    @ concat (map (\<lambda>s. text_block (screenshot_item_lines s))
                               (take 12 (results_get (screenshots r) [])))
                    @ text_block screenshots_close_lines)"])
       (simp only: h append_assoc)
qed

lemma text_block_append:
  "text_block (xs @ ys) = text_block xs @ concat (map (\<lambda>l. l @ [CHR 0x0A]) ys)"
  by (simp add: text_block_def)

lemma page_tail_timestamp:
  \<open>page_tail generated_on passed failed =
     (CHR 0x0A # ''        <div class="timestamp">'' @ CHR 0x0A # ''            Generated on '')
     @ generated_on
     @ (CHR 0x0A # concat (map (\<lambda>l. l @ [CHR 0x0A])
          ([''        </div>'', ''    </div>'', ''    '', ''    <script>'']
           @ results_chart_lines passed failed @ categories_chart_lines @ document_close_lines)))\<close>
  by (simp add: page_tail_def text_block_def timestamp_lines_def)

lemma page_tail_charts:
  "page_tail generated_on passed failed =
     text_block (timestamp_lines generated_on)
     @ concat (map (\<lambda>l. l @ [CHR 0x0A])
         (results_chart_lines passed failed @ categories_chart_lines @ document_close_lines))"
  by (simp only: page_tail_def text_block_append)

lemma chart_lines:
  \<open>results_chart_lines passed failed ! 5 = ''                labels: ['Passed', 'Failed'],'' \<and>
   results_chart_lines passed failed ! 7
     = ''                    data: ['' @ py_str passed @ '', '' @ py_str failed @ ''],'' \<and>
   categories_chart_lines ! 5 = ''                labels: ['Login', 'Trading', 'Views', 'Bulk Ops'],'' \<and>
   categories_chart_lines ! 8 = ''                    data: [2, 4, 4, 2],''\<close>
  by (simp add: results_chart_lines_def categories_chart_lines_def)

lemma section_lines_only_in_section:
  "set screenshots_open_lines \<inter>
     set (document_head_lines @ style_lines @ body_head_lines total_tests passed failed rate
          @ details_close_lines @ timestamp_lines generated_on
          @ results_chart_lines passed failed @ categories_chart_lines @ document_close_lines) = {}"
  by (simp add: screenshots_open_lines_def document_head_lines_def style_lines_def
        body_head_lines_def details_close_lines_def timestamp_lines_def results_chart_lines_def
        categories_chart_lines_def document_close_lines_def)

section \<open>The pass rate\<close>

text \<open>
  For \<open>0 \<le> passed \<le> total_tests\<close> and \<open>0 < total_tests\<close> the quotient is at most one, so
  it is rounded with an error of at most \<open>2^-53\<close>; its hundredfold is below \<open>128\<close> and is
  rounded with an error of at most \<open>2^-47\<close>. Neither operation overflows.
\<close>

lemma pass_rate_error:
  assumes "0 \<le> p" and "p \<le> t" and "0 < t"
  shows "\<exists>m e. pass_rate (JInt t) (JInt p) = Inr (Finite False m e)
           \<and> \<bar>float_val (Finite False m e) - of_int p / of_int t * 100\<bar> \<le> 1 / 2 ^ 45"
proof (cases "p = 0")
  case True
  with assms have "pass_rate (JInt t) (JInt p) = Inr (Finite False 0 0)"
    by (simp add: pass_rate_def int_true_div_def float_of_small_int_def)
  with True show ?thesis by simp
next
  case False
  with assms have ppos: "0 < p" by simp
  define x :: rat where "x = of_int p / of_int t"
  from int_true_div_fraction [OF ppos assms(2)]
  obtain m e where q: "int_true_div p t = Inr (Finite False m e)" and m: "0 \<le> m"
    and qerr: "\<bar>of_int m * 2 powi e - x\<bar> \<le> 2 powi (- 53)"
    unfolding x_def by blast
  have "x \<le> 1" using assms by (simp add: x_def field_simps)
  with qerr have "of_int m * 2 powi e \<le> (1::rat) + 2 powi (- 53)" by linarith
  from float_mul_100 [OF m this]
  obtain m' e' where r: "float_mul (Finite False m e) (float_of_small_int 100) = Finite False m' e'"
    and rerr: "\<bar>of_int m' * 2 powi e' - of_int m * 2 powi e * (100::rat)\<bar> \<le> 2 powi (- 47)"
    by blast
  have "of_int m * 2 powi e * 100 - x * 100 = (of_int m * 2 powi e - x) * 100"
    by (simp add: algebra_simps)
  then have "\<bar>of_int m * 2 powi e * 100 - x * 100\<bar> = \<bar>of_int m * 2 powi e - x\<bar> * 100"
    by (simp only: abs_mult)
  with qerr have "\<bar>of_int m * 2 powi e * 100 - x * 100\<bar> \<le> 2 powi (- 53) * 100" by simp
  with rerr have "\<bar>of_int m' * 2 powi e' - x * 100\<bar> \<le> 2 powi (- 53) * 100 + 2 powi (- 47)"
    by linarith
  also have "\<dots> \<le> 1 / 2 ^ 45" by simp
  finally have "\<bar>float_val (Finite False m' e') - x * 100\<bar> \<le> 1 / 2 ^ 45" by simp
  moreover have "pass_rate (JInt t) (JInt p) = Inr (Finite False m' e')"
    using assms q r by (simp add: pass_rate_def)
  ultimately show ?thesis unfolding x_def by blast
qed

lemma pass_rate_9_7: "pass_rate (JInt 9) (JInt 7) = Inr (Finite False 5473124547151645 (- 46))"
  by code_simp

lemma rendered_9_7_2:
  \<open>body_head_lines (JInt 9) (JInt 7) (JInt 2) (Finite False 5473124547151645 (- 46)) ! 11
     = ''                <div class="metric-value total">9</div>'' \<and>
   body_head_lines (JInt 9) (JInt 7) (JInt 2) (Finite False 5473124547151645 (- 46)) ! 15
     = ''                <div class="metric-value passed">7</div>'' \<and>
   body_head_lines (JInt 9) (JInt 7) (JInt 2) (Finite False 5473124547151645 (- 46)) ! 19
     = ''                <div class="metric-value failed">2</div>'' \<and>
   body_head_lines (JInt 9) (JInt 7) (JInt 2) (Finite False 5473124547151645 (- 46)) ! 23
     = ''                <div class="metric-value rate">77.8%</div>''\<close>
  by code_simp


text \<open>
  Claim C1. For non-negative \<open>p\<close> and \<open>f\<close> with \<open>p + f = t > 0\<close> the renderer's pass rate
  is a finite float within \<open>2^-45\<close> of the exact \<open>p / t * 100\<close> (the floating tolerance: two
  roundings to binary64); with \<open>total_tests = 0\<close> it is zero, whatever \<open>passed\<close> is; and a
  summary of 9 tests, 7 passed and 2 failed renders the four metrics \<open>9\<close>, \<open>7\<close>, \<open>2\<close>
  and \<open>77.8%\<close>.
\<close>

theorem pass_rate_correct:
  \<open>(0 \<le> p \<and> 0 \<le> f \<and> p + f = t \<and> 0 < t \<longrightarrow>
      (\<exists>m e. pass_rate (JInt t) (JInt p) = Inr (Finite False m e) \<and>
             \<bar>float_val (Finite False m e) - of_int p / of_int t * 100\<bar> \<le> 1 / 2 ^ 45)) \<and>
   pass_rate (JInt 0) passed = Inr (float_of_small_int 0) \<and>
   float_val (float_of_small_int 0) = 0 \<and>
   (summary r = Some [''total_tests'' \<mapsto> JInt 9, ''passed'' \<mapsto> JInt 7, ''failed'' \<mapsto> JInt 2] \<longrightarrow>
      (\<exists>rate rest.
         generate_dashboard_html r generated_on
           = Inr (page_head (JInt 9) (JInt 7) (JInt 2) rate @ rest) \<and>
         body_head_lines (JInt 9) (JInt 7) (JInt 2) rate ! 11
           = ''                <div class="metric-value total">9</div>'' \<and>
         body_head_lines (JInt 9) (JInt 7) (JInt 2) rate ! 15
           = ''                <div class="metric-value passed">7</div>'' \<and>
         body_head_lines (JInt 9) (JInt 7) (JInt 2) rate ! 19
           = ''                <div class="metric-value failed">2</div>'' \<and>
         body_head_lines (JInt 9) (JInt 7) (JInt 2) rate ! 23
           = ''                <div class="metric-value rate">77.8%</div>''))\<close>
proof (intro conjI impI)
  assume "0 \<le> p \<and> 0 \<le> f \<and> p + f = t \<and> 0 < t"
  then have "0 \<le> p" "p \<le> t" "0 < t" by simp_all
  then show "\<exists>m e. pass_rate (JInt t) (JInt p) = Inr (Finite False m e) \<and>
             \<bar>float_val (Finite False m e) - of_int p / of_int t * 100\<bar> \<le> 1 / 2 ^ 45"
    by (rule pass_rate_error)
next
  show "pass_rate (JInt 0) passed = Inr (float_of_small_int 0)"
    by (simp add: pass_rate_def)
next
  show "float_val (float_of_small_int 0) = 0"
    by (simp add: float_of_small_int_def)
next
  assume s: "summary r = Some [''total_tests'' \<mapsto> JInt 9, ''passed'' \<mapsto> JInt 7, ''failed'' \<mapsto> JInt 2]"
  let ?rate = "Finite False 5473124547151645 (- 46)"
  have "\<exists>rest. generate_dashboard_html r generated_on
           = Inr (page_head (JInt 9) (JInt 7) (JInt 2) ?rate @ rest)"
    using s pass_rate_9_7
    by (simp add: generate_dashboard_html_sections results_get_def dict_get_def Let_def)
  with rendered_9_7_2
  show \<open>\<exists>rate rest.
         generate_dashboard_html r generated_on
           = Inr (page_head (JInt 9) (JInt 7) (JInt 2) rate @ rest) \<and>
         body_head_lines (JInt 9) (JInt 7) (JInt 2) rate ! 11
           = ''                <div class="metric-value total">9</div>'' \<and>
         body_head_lines (JInt 9) (JInt 7) (JInt 2) rate ! 15
           = ''                <div class="metric-value passed">7</div>'' \<and>
         body_head_lines (JInt 9) (JInt 7) (JInt 2) rate ! 19
           = ''                <div class="metric-value failed">2</div>'' \<and>
         body_head_lines (JInt 9) (JInt 7) (JInt 2) rate ! 23
           = ''                <div class="metric-value rate">77.8%</div>''\<close>
    by blast
qed

theorem pass_rate_correct_witness:
  \<open>(0::int) \<le> 7 \<and> (0::int) \<le> 2 \<and> (7::int) + 2 = 9 \<and> (0::int) < 9 \<and>
   (\<exists>m e. pass_rate (JInt 9) (JInt 7) = Inr (Finite False m e) \<and>
          \<bar>float_val (Finite False m e) - of_int 7 / of_int 9 * 100\<bar> \<le> 1 / 2 ^ 45) \<and>
   summary \<lparr>summary = Some [''total_tests'' \<mapsto> JInt 9, ''passed'' \<mapsto> JInt 7, ''failed'' \<mapsto> JInt 2],
            test_details = None, screenshots = None, logs = None\<rparr>
     = Some [''total_tests'' \<mapsto> JInt 9, ''passed'' \<mapsto> JInt 7, ''failed'' \<mapsto> JInt 2] \<and>
   (\<exists>rate rest.
      generate_dashboard_html
        \<lparr>summary = Some [''total_tests'' \<mapsto> JInt 9, ''passed'' \<mapsto> JInt 7, ''failed'' \<mapsto> JInt 2],
         test_details = None, screenshots = None, logs = None\<rparr> ''2026-01-01 10:00:00''
        = Inr (page_head (JInt 9) (JInt 7) (JInt 2) rate @ rest) \<and>
      body_head_lines (JInt 9) (JInt 7) (JInt 2) rate ! 23
        = ''                <div class="metric-value rate">77.8%</div>'')\<close>
  using pass_rate_correct [of 7 2 9 "JInt 0"
          "\<lparr>summary = Some [''total_tests'' \<mapsto> JInt 9, ''passed'' \<mapsto> JInt 7, ''failed'' \<mapsto> JInt 2],
            test_details = None, screenshots = None, logs = None\<rparr>" "''2026-01-01 10:00:00''"]
  by (simp del: float_val.simps) blast

section \<open>Rendering without documents\<close>

text \<open>
  With no file to load, the loader returns its initial dictionary, filled with whatever
  the two directories hold; an empty summary has no key, so each metric is its default.
\<close>

lemma rendered_zero:
  \<open>body_head_lines (JInt 0) (JInt 0) (JInt 0) (float_of_small_int 0) ! 11
     = ''                <div class="metric-value total">0</div>'' \<and>
   body_head_lines (JInt 0) (JInt 0) (JInt 0) (float_of_small_int 0) ! 15
     = ''                <div class="metric-value passed">0</div>'' \<and>
   body_head_lines (JInt 0) (JInt 0) (JInt 0) (float_of_small_int 0) ! 19
     = ''                <div class="metric-value failed">0</div>'' \<and>
   body_head_lines (JInt 0) (JInt 0) (JInt 0) (float_of_small_int 0) ! 23
     = ''                <div class="metric-value rate">0.0%</div>''\<close>
  by code_simp

lemma load_test_results_absent:
  assumes "test_summary_json fs = Absent" and "test_report_json fs = Absent"
  shows "load_test_results fs =
           Inr \<lparr>summary = Some Map.empty, test_details = Some [],
                screenshots = Some (results_get (screenshots_dir fs) []),
                logs = Some (results_get (logs_dir fs) [])\<rparr>"
  using assms by (simp add: load_test_results_def results_get_def Let_def split: option.splits)

lemma generate_dashboard_html_empty:
  assumes "results_get (summary r) Map.empty = Map.empty"
    and "results_get (test_details r) [] = []"
  shows "generate_dashboard_html r generated_on =
           Inr (page_head (JInt 0) (JInt 0) (JInt 0) (float_of_small_int 0)
                @ text_block details_close_lines
                @ (if results_get (screenshots r) [] = [] then []
                   else text_block screenshots_open_lines
                        @ concat (map (\<lambda>s. text_block (screenshot_item_lines s))
                                   (take 12 (results_get (screenshots r) [])))
                        @ text_block screenshots_close_lines)
                @ page_tail generated_on (JInt 0) (JInt 0))"
  using assms
  by (simp add: generate_dashboard_html_sections Let_def dict_get_def pass_rate_def)

text \<open>
  Claim C2. With neither the summary document nor the detail document present, loading
  succeeds with an empty summary and an empty detail list, and rendering does not fail:
  the page is the head with the metrics \<open>0\<close>, \<open>0\<close>, \<open>0\<close> and \<open>0.0%\<close>, followed at once by the
  closing of the (empty) list of detailed results, then the screenshot section when
  screenshots were found, then the tail. The renderer gives the same page when the keys
  are missing from its argument altogether.
\<close>

theorem render_without_documents:
  \<open>(test_summary_json fs = Absent \<and> test_report_json fs = Absent \<longrightarrow>
      (\<exists>r. load_test_results fs = Inr r \<and>
           summary r = Some Map.empty \<and> test_details r = Some [] \<and>
           dashboard_main fs generated_on = generate_dashboard_html r generated_on \<and>
           generate_dashboard_html r generated_on =
             Inr (page_head (JInt 0) (JInt 0) (JInt 0) (float_of_small_int 0)
                  @ text_block details_close_lines
                  @ (if results_get (screenshots_dir fs) [] = [] then []
                     else text_block screenshots_open_lines
                          @ concat (map (\<lambda>s. text_block (screenshot_item_lines s))
                                     (take 12 (results_get (screenshots_dir fs) [])))
                          @ text_block screenshots_close_lines)
                  @ page_tail generated_on (JInt 0) (JInt 0)))) \<and>
   generate_dashboard_html \<lparr>summary = None, test_details = None, screenshots = None, logs = None\<rparr>
       generated_on =
     Inr (page_head (JInt 0) (JInt 0) (JInt 0) (float_of_small_int 0)
          @ text_block details_close_lines
          @ page_tail generated_on (JInt 0) (JInt 0)) \<and>
   body_head_lines (JInt 0) (JInt 0) (JInt 0) (float_of_small_int 0) ! 11
     = ''                <div class="metric-value total">0</div>'' \<and>
   body_head_lines (JInt 0) (JInt 0) (JInt 0) (float_of_small_int 0) ! 15
     = ''                <div class="metric-value passed">0</div>'' \<and>
   body_head_lines (JInt 0) (JInt 0) (JInt 0) (float_of_small_int 0) ! 19
     = ''                <div class="metric-value failed">0</div>'' \<and>
   body_head_lines (JInt 0) (JInt 0) (JInt 0) (float_of_small_int 0) ! 23
     = ''                <div class="metric-value rate">0.0%</div>''\<close>
proof -
  have loaded: "test_summary_json fs = Absent \<and> test_report_json fs = Absent \<longrightarrow>
      (\<exists>r. load_test_results fs = Inr r \<and>
           summary r = Some Map.empty \<and> test_details r = Some [] \<and>
           dashboard_main fs generated_on = generate_dashboard_html r generated_on \<and>
           generate_dashboard_html r generated_on =
             Inr (page_head (JInt 0) (JInt 0) (JInt 0) (float_of_small_int 0)
                  @ text_block details_close_lines
                  @ (if results_get (screenshots_dir fs) [] = [] then []
                     else text_block screenshots_open_lines
                          @ concat (map (\<lambda>s. text_block (screenshot_item_lines s))
                                     (take 12 (results_get (screenshots_dir fs) [])))
                          @ text_block screenshots_close_lines)
                  @ page_tail generated_on (JInt 0) (JInt 0)))"
  proof
    assume absent: "test_summary_json fs = Absent \<and> test_report_json fs = Absent"
    define r where "r = \<lparr>summary = Some Map.empty, test_details = Some [],
                screenshots = Some (results_get (screenshots_dir fs) []),
                logs = Some (results_get (logs_dir fs) [])\<rparr>"
    have load: "load_test_results fs = Inr r"
      using absent load_test_results_absent [of fs] by (simp add: r_def)
    have main: "dashboard_main fs generated_on = generate_dashboard_html r generated_on"
      using load by (simp add: dashboard_main_def)
    have html: "generate_dashboard_html r generated_on =
             Inr (page_head (JInt 0) (JInt 0) (JInt 0) (float_of_small_int 0)
                  @ text_block details_close_lines
                  @ (if results_get (screenshots_dir fs) [] = [] then []
                     else text_block screenshots_open_lines
                          @ concat (map (\<lambda>s. text_block (screenshot_item_lines s))
                                     (take 12 (results_get (screenshots_dir fs) [])))
                          @ text_block screenshots_close_lines)
                  @ page_tail generated_on (JInt 0) (JInt 0))"
      using generate_dashboard_html_empty [of r generated_on]
      by (simp add: r_def results_get_def)
    from load main html show "\<exists>r. load_test_results fs = Inr r \<and>
           summary r = Some Map.empty \<and> test_details r = Some [] \<and>
           dashboard_main fs generated_on = generate_dashboard_html r generated_on \<and>
           generate_dashboard_html r generated_on =
             Inr (page_head (JInt 0) (JInt 0) (JInt 0) (float_of_small_int 0)
                  @ text_block details_close_lines
                  @ (if results_get (screenshots_dir fs) [] = [] then []
                     else text_block screenshots_open_lines
                          @ concat (map (\<lambda>s. text_block (screenshot_item_lines s))
                                     (take 12 (results_get (screenshots_dir fs) [])))
                          @ text_block screenshots_close_lines)
                  @ page_tail generated_on (JInt 0) (JInt 0))"
      by (intro exI [of _ r]) (simp add: r_def)
  qed
  have direct: "generate_dashboard_html \<lparr>summary = None, test_details = None, screenshots = None, logs = None\<rparr>
       generated_on =
     Inr (page_head (JInt 0) (JInt 0) (JInt 0) (float_of_small_int 0)
          @ text_block details_close_lines
          @ page_tail generated_on (JInt 0) (JInt 0))"
    using generate_dashboard_html_empty
            [of "\<lparr>summary = None, test_details = None, screenshots = None, logs = None\<rparr>" generated_on]
    by (simp add: results_get_def)
  from loaded direct rendered_zero show ?thesis by blast
qed

theorem render_without_documents_witness:
  \<open>test_summary_json \<lparr>test_summary_json = Absent, test_report_json = Absent,
                       screenshots_dir = None, logs_dir = None\<rparr> = Absent \<and>
   test_report_json \<lparr>test_summary_json = Absent, test_report_json = Absent,
                      screenshots_dir = None, logs_dir = None\<rparr> = Absent \<and>
   dashboard_main \<lparr>test_summary_json = Absent, test_report_json = Absent,
                    screenshots_dir = None, logs_dir = None\<rparr> ''2026-01-01 10:00:00'' =
     Inr (page_head (JInt 0) (JInt 0) (JInt 0) (float_of_small_int 0)
          @ text_block details_close_lines
          @ page_tail ''2026-01-01 10:00:00'' (JInt 0) (JInt 0))\<close>
  using render_without_documents
          [of "\<lparr>test_summary_json = Absent, test_report_json = Absent,
                screenshots_dir = None, logs_dir = None\<rparr>" "''2026-01-01 10:00:00''"]
  by (auto simp: results_get_def)

section \<open>The detailed results and the screenshots\<close>

text \<open>
  Claim C3. Whenever rendering succeeds, the page holds, between its head and the closing
  of the list of detailed results, the concatenation of exactly as many entries as the
  detail list has records. The entry at each position is the rendering of the record at
  that position, and its text is written out: a \<open>test-item\<close> block whose
  \<open>test-name\<close> line carries the record's \<open>test_name\<close> (\<open>Unknown Test\<close> when the
  record has none) and whose \<open>test-status\<close> line carries the record's \<open>status\<close>
  (\<open>UNKNOWN\<close> when it has none) under the class \<open>status-passed\<close> when the status is
  \<open>PASSED\<close> and \<open>status-failed\<close> otherwise. Nothing is reordered and nothing is
  merged: two records of the same test name give two entries. Whether rendering succeeds
  does not depend on the detail list.
\<close>

theorem detail_section_entries:
  \<open>(generate_dashboard_html r generated_on = Inr html \<longrightarrow>
     (\<exists>total_tests passed failed rate entries rest.
        html = page_head total_tests passed failed rate
               @ concat entries @ text_block details_close_lines @ rest \<and>
        length entries = length (results_get (test_details r) []) \<and>
        (\<forall>i < length (results_get (test_details r) []).
           entries ! i = test_item (results_get (test_details r) [] ! i) \<and>
           entries ! i =
             text_block
               [''                <div class="test-item">'',
                ''                    <div class="test-name">''
                  @ py_str (dict_get (results_get (test_details r) [] ! i)
                              ''test_name'' (JStr ''Unknown Test''))
                  @ ''</div>'',
                ''                    <div class="test-status ''
                  @ (if dict_get (results_get (test_details r) [] ! i)
                          ''status'' (JStr ''UNKNOWN'') = JStr ''PASSED''
                     then ''status-passed'' else ''status-failed'')
                  @ ''">''
                  @ py_str (dict_get (results_get (test_details r) [] ! i)
                              ''status'' (JStr ''UNKNOWN''))
                  @ ''</div>'',
                ''                </div>'']))) \<and>
   (\<forall>records. isl (generate_dashboard_html (r\<lparr>test_details := records\<rparr>) generated_on)
                = isl (generate_dashboard_html r generated_on))\<close>
proof (rule conjI; (rule impI)?)
  show "\<forall>records. isl (generate_dashboard_html (r\<lparr>test_details := records\<rparr>) generated_on)
                = isl (generate_dashboard_html r generated_on)"
    by (simp add: generate_dashboard_html_isl)
next
  assume "generate_dashboard_html r generated_on = Inr html"
  from generate_dashboard_html_Inr [OF this]
  obtain rate where
    html: "html = page_head (dict_get (results_get (summary r) Map.empty) ''total_tests'' (JInt 0))
                      (dict_get (results_get (summary r) Map.empty) ''passed'' (JInt 0))
                      (dict_get (results_get (summary r) Map.empty) ''failed'' (JInt 0)) rate
            @ concat (map test_item (results_get (test_details r) []))
            @ text_block details_close_lines
            @ (if results_get (screenshots r) [] = [] then []
               else text_block screenshots_open_lines
                    @ concat (map (\<lambda>s. text_block (screenshot_item_lines s))
                               (take 12 (results_get (screenshots r) [])))
                    @ text_block screenshots_close_lines)
            @ page_tail generated_on
                (dict_get (results_get (summary r) Map.empty) ''passed'' (JInt 0))
                (dict_get (results_get (summary r) Map.empty) ''failed'' (JInt 0))"
    by blast
  let ?records = "results_get (test_details r) []"
  let ?entries = "map test_item ?records"
  have len: "length ?entries = length ?records" by simp
  have nth: \<open>\<forall>i < length ?records.
           ?entries ! i = test_item (?records ! i) \<and>
           ?entries ! i =
             text_block
               [''                <div class="test-item">'',
                ''                    <div class="test-name">''
                  @ py_str (dict_get (?records ! i) ''test_name'' (JStr ''Unknown Test''))
                  @ ''</div>'',
                ''                    <div class="test-status ''
                  @ (if dict_get (?records ! i) ''status'' (JStr ''UNKNOWN'') = JStr ''PASSED''
                     then ''status-passed'' else ''status-failed'')
                  @ ''">''
                  @ py_str (dict_get (?records ! i) ''status'' (JStr ''UNKNOWN''))
                  @ ''</div>'',
                ''                </div>'']\<close>
    by (simp add: test_item_def Let_def)
  from html len nth
  show \<open>\<exists>total_tests passed failed rate entries rest.
        html = page_head total_tests passed failed rate
               @ concat entries @ text_block details_close_lines @ rest \<and>
        length entries = length (results_get (test_details r) []) \<and>
        (\<forall>i < length (results_get (test_details r) []).
           entries ! i = test_item (results_get (test_details r) [] ! i) \<and>
           entries ! i =
             text_block
               [''                <div class="test-item">'',
                ''                    <div class="test-name">''
                  @ py_str (dict_get (results_get (test_details r) [] ! i)
                              ''test_name'' (JStr ''Unknown Test''))
                  @ ''</div>'',
                ''                    <div class="test-status ''
                  @ (if dict_get (results_get (test_details r) [] ! i)
                          ''status'' (JStr ''UNKNOWN'') = JStr ''PASSED''
                     then ''status-passed'' else ''status-failed'')
                  @ ''">''
                  @ py_str (dict_get (results_get (test_details r) [] ! i)
                              ''status'' (JStr ''UNKNOWN''))
                  @ ''</div>'',
                ''                </div>''])\<close>
    by blast
qed

theorem detail_section_entries_witness:
  \<open>generate_dashboard_html
     \<lparr>summary = None,
      test_details = Some [[''test_name'' \<mapsto> JStr ''test_b'', ''status'' \<mapsto> JStr ''PASSED''],
                           [''test_name'' \<mapsto> JStr ''test_a'', ''status'' \<mapsto> JStr ''FAILED''],
                           [''test_name'' \<mapsto> JStr ''test_b'', ''status'' \<mapsto> JStr ''PASSED'']],
      screenshots = None, logs = None\<rparr> ''2026-01-01 10:00:00''
     = Inr (page_head (JInt 0) (JInt 0) (JInt 0) (float_of_small_int 0)
            @ concat (map test_item
                [[''test_name'' \<mapsto> JStr ''test_b'', ''status'' \<mapsto> JStr ''PASSED''],
                 [''test_name'' \<mapsto> JStr ''test_a'', ''status'' \<mapsto> JStr ''FAILED''],
                 [''test_name'' \<mapsto> JStr ''test_b'', ''status'' \<mapsto> JStr ''PASSED'']])
            @ text_block details_close_lines
            @ page_tail ''2026-01-01 10:00:00'' (JInt 0) (JInt 0)) \<and>
   (\<exists>total_tests passed failed rate entries rest.
      page_head (JInt 0) (JInt 0) (JInt 0) (float_of_small_int 0)
        @ concat (map test_item
            [[''test_name'' \<mapsto> JStr ''test_b'', ''status'' \<mapsto> JStr ''PASSED''],
             [''test_name'' \<mapsto> JStr ''test_a'', ''status'' \<mapsto> JStr ''FAILED''],
             [''test_name'' \<mapsto> JStr ''test_b'', ''status'' \<mapsto> JStr ''PASSED'']])
        @ text_block details_close_lines
        @ page_tail ''2026-01-01 10:00:00'' (JInt 0) (JInt 0)
      = page_head total_tests passed failed rate
        @ concat entries @ text_block details_close_lines @ rest \<and>
      length entries = 3 \<and>
      entries ! 0 = test_item [''test_name'' \<mapsto> JStr ''test_b'', ''status'' \<mapsto> JStr ''PASSED''] \<and>
      entries ! 1 = test_item [''test_name'' \<mapsto> JStr ''test_a'', ''status'' \<mapsto> JStr ''FAILED''] \<and>
      entries ! 2 = test_item [''test_name'' \<mapsto> JStr ''test_b'', ''status'' \<mapsto> JStr ''PASSED''] \<and>
      entries ! 0 =
        text_block
          [''                <div class="test-item">'',
           ''                    <div class="test-name">test_b</div>'',
           ''                    <div class="test-status status-passed">PASSED</div>'',
           ''                </div>''] \<and>
      entries ! 1 =
        text_block
          [''                <div class="test-item">'',
           ''                    <div class="test-name">test_a</div>'',
           ''                    <div class="test-status status-failed">FAILED</div>'',
           ''                </div>''] \<and>
      entries ! 2 =
        text_block
          [''                <div class="test-item">'',
           ''                    <div class="test-name">test_b</div>'',
           ''                    <div class="test-status status-passed">PASSED</div>'',
           ''                </div>''])\<close>
proof -
  let ?ds = "[[''test_name'' \<mapsto> JStr ''test_b'', ''status'' \<mapsto> JStr ''PASSED''],
              [''test_name'' \<mapsto> JStr ''test_a'', ''status'' \<mapsto> JStr ''FAILED''],
              [''test_name'' \<mapsto> JStr ''test_b'', ''status'' \<mapsto> JStr ''PASSED'']]"
  let ?r = "\<lparr>summary = None, test_details = Some ?ds, screenshots = None, logs = None\<rparr>"
  let ?html = "page_head (JInt 0) (JInt 0) (JInt 0) (float_of_small_int 0)
            @ concat (map test_item ?ds)
            @ text_block details_close_lines
            @ page_tail ''2026-01-01 10:00:00'' (JInt 0) (JInt 0)"
  have rendered: "generate_dashboard_html ?r ''2026-01-01 10:00:00'' = Inr ?html"
    by (simp add: generate_dashboard_html_sections results_get_def dict_get_def pass_rate_def Let_def)
  from detail_section_entries [of ?r "''2026-01-01 10:00:00''" ?html] rendered
  obtain total_tests passed failed rate entries rest where
    shape: "?html = page_head total_tests passed failed rate
                    @ concat entries @ text_block details_close_lines @ rest"
    and len: "length entries = length (results_get (test_details ?r) [])"
    and nth: \<open>\<forall>i < length (results_get (test_details ?r) []).
           entries ! i = test_item (results_get (test_details ?r) [] ! i) \<and>
           entries ! i =
             text_block
               [''                <div class="test-item">'',
                ''                    <div class="test-name">''
                  @ py_str (dict_get (results_get (test_details ?r) [] ! i)
                              ''test_name'' (JStr ''Unknown Test''))
                  @ ''</div>'',
                ''                    <div class="test-status ''
                  @ (if dict_get (results_get (test_details ?r) [] ! i)
                          ''status'' (JStr ''UNKNOWN'') = JStr ''PASSED''
                     then ''status-passed'' else ''status-failed'')
                  @ ''">''
                  @ py_str (dict_get (results_get (test_details ?r) [] ! i)
                              ''status'' (JStr ''UNKNOWN''))
                  @ ''</div>'',
                ''                </div>'']\<close>
    by blast
  from len have l3: "length entries = 3" by (simp add: results_get_def)
  from nth [rule_format, of 0, THEN conjunct1] nth [rule_format, of 1, THEN conjunct1]
    nth [rule_format, of 2, THEN conjunct1]
  have e: "entries ! 0 = test_item [''test_name'' \<mapsto> JStr ''test_b'', ''status'' \<mapsto> JStr ''PASSED'']"
    "entries ! 1 = test_item [''test_name'' \<mapsto> JStr ''test_a'', ''status'' \<mapsto> JStr ''FAILED'']"
    "entries ! 2 = test_item [''test_name'' \<mapsto> JStr ''test_b'', ''status'' \<mapsto> JStr ''PASSED'']"
    by (simp_all add: results_get_def)
  from nth [rule_format, of 0, THEN conjunct2] have t0: \<open>entries ! 0 =
        text_block
          [''                <div class="test-item">'',
           ''                    <div class="test-name">test_b</div>'',
           ''                    <div class="test-status status-passed">PASSED</div>'',
           ''                </div>'']\<close>
    by (simp add: results_get_def dict_get_def)
  from nth [rule_format, of 1, THEN conjunct2] have t1: \<open>entries ! 1 =
        text_block
          [''                <div class="test-item">'',
           ''                    <div class="test-name">test_a</div>'',
           ''                    <div class="test-status status-failed">FAILED</div>'',
           ''                </div>'']\<close>
    by (simp add: results_get_def dict_get_def)
  from nth [rule_format, of 2, THEN conjunct2] have t2: \<open>entries ! 2 =
        text_block
          [''                <div class="test-item">'',
           ''                    <div class="test-name">test_b</div>'',
           ''                    <div class="test-status status-passed">PASSED</div>'',
           ''                </div>'']\<close>
    by (simp add: results_get_def dict_get_def)
  from rendered shape l3 e t0 t1 t2 show ?thesis by blast
qed

text \<open>
  Claim C4. Whenever rendering succeeds, the screenshot section holds the entries of the
  first twelve discovered file names at most, in the order of discovery: \<open>min 12 n\<close>
  entries for \<open>n\<close> names. The entry at each position is that of the name at that
  position, and its text is written out: a \<open>screenshot-item\<close> block whose image line
  names the file twice, as \<open>src="screenshots/<name>"\<close> and in the argument of
  \<open>window.open\<close>. For fifteen names these are exactly the first twelve. Whether
  rendering succeeds does not depend on the screenshot list.
\<close>

theorem screenshot_section_cap:
  \<open>(generate_dashboard_html r generated_on = Inr html \<longrightarrow>
     (\<exists>before entries.
        html = before
               @ (if results_get (screenshots r) [] = [] then []
                  else text_block screenshots_open_lines @ concat entries
                       @ text_block screenshots_close_lines)
               @ page_tail generated_on
                   (dict_get (results_get (summary r) Map.empty) ''passed'' (JInt 0))
                   (dict_get (results_get (summary r) Map.empty) ''failed'' (JInt 0)) \<and>
        length entries = min 12 (length (results_get (screenshots r) [])) \<and>
        length entries \<le> 12 \<and>
        (\<forall>i < length entries.
           entries ! i = text_block (screenshot_item_lines (results_get (screenshots r) [] ! i)) \<and>
           entries ! i =
             text_block
               [''                <div class="screenshot-item">'',
                ''                    <img src="screenshots/''
                  @ results_get (screenshots r) [] ! i
                  @ ''" alt="Test Screenshot" onclick="window.open('screenshots/''
                  @ results_get (screenshots r) [] ! i
                  @ [CHR 0x27] @ '', '_blank')">'',
                ''                </div>'']) \<and>
        (length (results_get (screenshots r) []) = 15 \<longrightarrow> length entries = 12))) \<and>
   (\<forall>names. isl (generate_dashboard_html (r\<lparr>screenshots := names\<rparr>) generated_on)
              = isl (generate_dashboard_html r generated_on))\<close>
proof (rule conjI; (rule impI)?)
  show "\<forall>names. isl (generate_dashboard_html (r\<lparr>screenshots := names\<rparr>) generated_on)
              = isl (generate_dashboard_html r generated_on)"
    by (simp add: generate_dashboard_html_isl)
next
  assume "generate_dashboard_html r generated_on = Inr html"
  from generate_dashboard_html_Inr [OF this]
  obtain rate where
    html: "html = page_head (dict_get (results_get (summary r) Map.empty) ''total_tests'' (JInt 0))
                      (dict_get (results_get (summary r) Map.empty) ''passed'' (JInt 0))
                      (dict_get (results_get (summary r) Map.empty) ''failed'' (JInt 0)) rate
            @ concat (map test_item (results_get (test_details r) []))
            @ text_block details_close_lines
            @ (if results_get (screenshots r) [] = [] then []
               else text_block screenshots_open_lines
                    @ concat (map (\<lambda>s. text_block (screenshot_item_lines s))
                               (take 12 (results_get (screenshots r) [])))
                    @ text_block screenshots_close_lines)
            @ page_tail generated_on
                (dict_get (results_get (summary r) Map.empty) ''passed'' (JInt 0))
                (dict_get (results_get (summary r) Map.empty) ''failed'' (JInt 0))"
    by blast
  let ?shots = "results_get (screenshots r) []"
  let ?entries = "map (\<lambda>s. text_block (screenshot_item_lines s)) (take 12 ?shots)"
  let ?before = "page_head (dict_get (results_get (summary r) Map.empty) ''total_tests'' (JInt 0))
                      (dict_get (results_get (summary r) Map.empty) ''passed'' (JInt 0))
                      (dict_get (results_get (summary r) Map.empty) ''failed'' (JInt 0)) rate
            @ concat (map test_item (results_get (test_details r) []))
            @ text_block details_close_lines"
  have shape: "html = ?before
               @ (if ?shots = [] then []
                  else text_block screenshots_open_lines @ concat ?entries
                       @ text_block screenshots_close_lines)
               @ page_tail generated_on
                   (dict_get (results_get (summary r) Map.empty) ''passed'' (JInt 0))
                   (dict_get (results_get (summary r) Map.empty) ''failed'' (JInt 0))"
    using html by simp
  have len: "length ?entries = min 12 (length ?shots)" by (simp add: min.commute)
  have cap: "length ?entries \<le> 12" by simp
  have nth: \<open>\<forall>i < length ?entries.
           ?entries ! i = text_block (screenshot_item_lines (?shots ! i)) \<and>
           ?entries ! i =
             text_block
               [''                <div class="screenshot-item">'',
                ''                    <img src="screenshots/''
                  @ ?shots ! i
                  @ ''" alt="Test Screenshot" onclick="window.open('screenshots/''
                  @ ?shots ! i
                  @ [CHR 0x27] @ '', '_blank')">'',
                ''                </div>'']\<close>
    by (simp add: screenshot_item_lines_def)
  have fifteen: "length ?shots = 15 \<longrightarrow> length ?entries = 12" by simp
  from shape len cap nth fifteen
  show \<open>\<exists>before entries.
        html = before
               @ (if results_get (screenshots r) [] = [] then []
                  else text_block screenshots_open_lines @ concat entries
                       @ text_block screenshots_close_lines)
               @ page_tail generated_on
                   (dict_get (results_get (summary r) Map.empty) ''passed'' (JInt 0))
                   (dict_get (results_get (summary r) Map.empty) ''failed'' (JInt 0)) \<and>
        length entries = min 12 (length (results_get (screenshots r) [])) \<and>
        length entries \<le> 12 \<and>
        (\<forall>i < length entries.
           entries ! i = text_block (screenshot_item_lines (results_get (screenshots r) [] ! i)) \<and>
           entries ! i =
             text_block
               [''                <div class="screenshot-item">'',
                ''                    <img src="screenshots/''
                  @ results_get (screenshots r) [] ! i
                  @ ''" alt="Test Screenshot" onclick="window.open('screenshots/''
                  @ results_get (screenshots r) [] ! i
                  @ [CHR 0x27] @ '', '_blank')">'',
                ''                </div>'']) \<and>
        (length (results_get (screenshots r) []) = 15 \<longrightarrow> length entries = 12)\<close>
    by blast
qed

theorem screenshot_section_cap_witness:
  \<open>generate_dashboard_html
     \<lparr>summary = None, test_details = None,
      screenshots = Some [''s01.png'', ''s02.png'', ''s03.png'', ''s04.png'', ''s05.png'',
                          ''s06.png'', ''s07.png'', ''s08.png'', ''s09.png'', ''s10.png'',
                          ''s11.png'', ''s12.png'', ''s13.png'', ''s14.png'', ''s15.png''],
      logs = None\<rparr> ''2026-01-01 10:00:00''
     = Inr (page_head (JInt 0) (JInt 0) (JInt 0) (float_of_small_int 0)
            @ text_block details_close_lines
            @ text_block screenshots_open_lines
            @ concat (map (\<lambda>s. text_block (screenshot_item_lines s))
                [''s01.png'', ''s02.png'', ''s03.png'', ''s04.png'', ''s05.png'', ''s06.png'',
                 ''s07.png'', ''s08.png'', ''s09.png'', ''s10.png'', ''s11.png'', ''s12.png''])
            @ text_block screenshots_close_lines
            @ page_tail ''2026-01-01 10:00:00'' (JInt 0) (JInt 0)) \<and>
   (\<exists>before entries.
      page_head (JInt 0) (JInt 0) (JInt 0) (float_of_small_int 0)
        @ text_block details_close_lines
        @ text_block screenshots_open_lines
        @ concat (map (\<lambda>s. text_block (screenshot_item_lines s))
            [''s01.png'', ''s02.png'', ''s03.png'', ''s04.png'', ''s05.png'', ''s06.png'',
                 ''s07.png'', ''s08.png'', ''s09.png'', ''s10.png'', ''s11.png'', ''s12.png''])
        @ text_block screenshots_close_lines
        @ page_tail ''2026-01-01 10:00:00'' (JInt 0) (JInt 0)
      = before @ text_block screenshots_open_lines @ concat entries
        @ text_block screenshots_close_lines
        @ page_tail ''2026-01-01 10:00:00'' (JInt 0) (JInt 0) \<and>
      length entries = 12 \<and>
      entries ! 0 = text_block (screenshot_item_lines ''s01.png'') \<and>
      entries ! 11 = text_block (screenshot_item_lines ''s12.png'') \<and>
      entries ! 0 =
        text_block
          [''                <div class="screenshot-item">'',
           ''                    <img src="screenshots/s01.png" alt="Test Screenshot" onclick="window.open('screenshots/s01.png'' @ [CHR 0x27] @ '', '_blank')">'',
           ''                </div>''] \<and>
      entries ! 1 =
        text_block
          [''                <div class="screenshot-item">'',
           ''                    <img src="screenshots/s02.png" alt="Test Screenshot" onclick="window.open('screenshots/s02.png'' @ [CHR 0x27] @ '', '_blank')">'',
           ''                </div>''] \<and>
      entries ! 2 =
        text_block
          [''                <div class="screenshot-item">'',
           ''                    <img src="screenshots/s03.png" alt="Test Screenshot" onclick="window.open('screenshots/s03.png'' @ [CHR 0x27] @ '', '_blank')">'',
           ''                </div>''] \<and>
      entries ! 3 =
        text_block
          [''                <div class="screenshot-item">'',
           ''                    <img src="screenshots/s04.png" alt="Test Screenshot" onclick="window.open('screenshots/s04.png'' @ [CHR 0x27] @ '', '_blank')">'',
           ''                </div>''] \<and>
      entries ! 4 =
        text_block
          [''                <div class="screenshot-item">'',
           ''                    <img src="screenshots/s05.png" alt="Test Screenshot" onclick="window.open('screenshots/s05.png'' @ [CHR 0x27] @ '', '_blank')">'',
           ''                </div>''] \<and>
      entries ! 5 =
        text_block
          [''                <div class="screenshot-item">'',
           ''                    <img src="screenshots/s06.png" alt="Test Screenshot" onclick="window.open('screenshots/s06.png'' @ [CHR 0x27] @ '', '_blank')">'',
           ''                </div>''] \<and>
      entries ! 6 =
        text_block
          [''                <div class="screenshot-item">'',
           ''                    <img src="screenshots/s07.png" alt="Test Screenshot" onclick="window.open('screenshots/s07.png'' @ [CHR 0x27] @ '', '_blank')">'',
           ''                </div>''] \<and>
      entries ! 7 =
        text_block
          [''                <div class="screenshot-item">'',
           ''                    <img src="screenshots/s08.png" alt="Test Screenshot" onclick="window.open('screenshots/s08.png'' @ [CHR 0x27] @ '', '_blank')">'',
           ''                </div>''] \<and>
      entries ! 8 =
        text_block
          [''                <div class="screenshot-item">'',
           ''                    <img src="screenshots/s09.png" alt="Test Screenshot" onclick="window.open('screenshots/s09.png'' @ [CHR 0x27] @ '', '_blank')">'',
           ''                </div>''] \<and>
      entries ! 9 =
        text_block
          [''                <div class="screenshot-item">'',
           ''                    <img src="screenshots/s10.png" alt="Test Screenshot" onclick="window.open('screenshots/s10.png'' @ [CHR 0x27] @ '', '_blank')">'',
           ''                </div>''] \<and>
      entries ! 10 =
        text_block
          [''                <div class="screenshot-item">'',
           ''                    <img src="screenshots/s11.png" alt="Test Screenshot" onclick="window.open('screenshots/s11.png'' @ [CHR 0x27] @ '', '_blank')">'',
           ''                </div>''] \<and>
      entries ! 11 =
        text_block
          [''                <div class="screenshot-item">'',
           ''                    <img src="screenshots/s12.png" alt="Test Screenshot" onclick="window.open('screenshots/s12.png'' @ [CHR 0x27] @ '', '_blank')">'',
           ''                </div>''])\<close>
proof -
  let ?shots = "[''s01.png'', ''s02.png'', ''s03.png'', ''s04.png'', ''s05.png'',
                          ''s06.png'', ''s07.png'', ''s08.png'', ''s09.png'', ''s10.png'',
                          ''s11.png'', ''s12.png'', ''s13.png'', ''s14.png'', ''s15.png'']"
  let ?r = "\<lparr>summary = None, test_details = None, screenshots = Some ?shots, logs = None\<rparr>"
  let ?html = "page_head (JInt 0) (JInt 0) (JInt 0) (float_of_small_int 0)
            @ text_block details_close_lines
            @ text_block screenshots_open_lines
            @ concat (map (\<lambda>s. text_block (screenshot_item_lines s))
                [''s01.png'', ''s02.png'', ''s03.png'', ''s04.png'', ''s05.png'', ''s06.png'',
                 ''s07.png'', ''s08.png'', ''s09.png'', ''s10.png'', ''s11.png'', ''s12.png''])
            @ text_block screenshots_close_lines
            @ page_tail ''2026-01-01 10:00:00'' (JInt 0) (JInt 0)"
  have rendered: "generate_dashboard_html ?r ''2026-01-01 10:00:00'' = Inr ?html"
    by (simp add: generate_dashboard_html_sections results_get_def dict_get_def pass_rate_def Let_def)
  from screenshot_section_cap [of ?r "''2026-01-01 10:00:00''" ?html] rendered
  obtain before entries where
    shape: "?html = before
               @ (if results_get (screenshots ?r) [] = [] then []
                  else text_block screenshots_open_lines @ concat entries
                       @ text_block screenshots_close_lines)
               @ page_tail ''2026-01-01 10:00:00''
                   (dict_get (results_get (summary ?r) Map.empty) ''passed'' (JInt 0))
                   (dict_get (results_get (summary ?r) Map.empty) ''failed'' (JInt 0))"
    and len: "length entries = min 12 (length (results_get (screenshots ?r) []))"
    and nth: \<open>\<forall>i < length entries.
           entries ! i = text_block (screenshot_item_lines (results_get (screenshots ?r) [] ! i)) \<and>
           entries ! i =
             text_block
               [''                <div class="screenshot-item">'',
                ''                    <img src="screenshots/''
                  @ results_get (screenshots ?r) [] ! i
                  @ ''" alt="Test Screenshot" onclick="window.open('screenshots/''
                  @ results_get (screenshots ?r) [] ! i
                  @ [CHR 0x27] @ '', '_blank')">'',
                ''                </div>'']\<close>
    by blast
  from shape have shape': "?html = before @ text_block screenshots_open_lines @ concat entries
        @ text_block screenshots_close_lines
        @ page_tail ''2026-01-01 10:00:00'' (JInt 0) (JInt 0)"
    by (simp add: results_get_def dict_get_def)
  from len have l12: "length entries = 12" by (simp add: results_get_def)
  from nth [rule_format, of 0, THEN conjunct1] nth [rule_format, of 11, THEN conjunct1]
  have e: "entries ! 0 = text_block (screenshot_item_lines ''s01.png'')"
    "entries ! 11 = text_block (screenshot_item_lines ''s12.png'')"
    by (simp_all add: l12 results_get_def)
  from nth [rule_format, of 0, THEN conjunct2] have t0: \<open>entries ! 0 =
        text_block
          [''                <div class="screenshot-item">'',
           ''                    <img src="screenshots/s01.png" alt="Test Screenshot" onclick="window.open('screenshots/s01.png'' @ [CHR 0x27] @ '', '_blank')">'',
           ''                </div>'']\<close>
    by (simp add: l12 results_get_def)
  from nth [rule_format, of 1, THEN conjunct2] have t1: \<open>entries ! 1 =
        text_block
          [''                <div class="screenshot-item">'',
           ''                    <img src="screenshots/s02.png" alt="Test Screenshot" onclick="window.open('screenshots/s02.png'' @ [CHR 0x27] @ '', '_blank')">'',
           ''                </div>'']\<close>
    by (simp add: l12 results_get_def)
  from nth [rule_format, of 2, THEN conjunct2] have t2: \<open>entries ! 2 =
        text_block
          [''                <div class="screenshot-item">'',
           ''                    <img src="screenshots/s03.png" alt="Test Screenshot" onclick="window.open('screenshots/s03.png'' @ [CHR 0x27] @ '', '_blank')">'',
           ''                </div>'']\<close>
    by (simp add: l12 results_get_def)
  from nth [rule_format, of 3, THEN conjunct2] have t3: \<open>entries ! 3 =
        text_block
          [''                <div class="screenshot-item">'',
           ''                    <img src="screenshots/s04.png" alt="Test Screenshot" onclick="window.open('screenshots/s04.png'' @ [CHR 0x27] @ '', '_blank')">'',
           ''                </div>'']\<close>
    by (simp add: l12 results_get_def)
  from nth [rule_format, of 4, THEN conjunct2] have t4: \<open>entries ! 4 =
        text_block
          [''                <div class="screenshot-item">'',
           ''                    <img src="screenshots/s05.png" alt="Test Screenshot" onclick="window.open('screenshots/s05.png'' @ [CHR 0x27] @ '', '_blank')">'',
           ''                </div>'']\<close>
    by (simp add: l12 results_get_def)
  from nth [rule_format, of 5, THEN conjunct2] have t5: \<open>entries ! 5 =
        text_block
          [''                <div class="screenshot-item">'',
           ''                    <img src="screenshots/s06.png" alt="Test Screenshot" onclick="window.open('screenshots/s06.png'' @ [CHR 0x27] @ '', '_blank')">'',
           ''                </div>'']\<close>
    by (simp add: l12 results_get_def)
  from nth [rule_format, of 6, THEN conjunct2] have t6: \<open>entries ! 6 =
        text_block
          [''                <div class="screenshot-item">'',
           ''                    <img src="screenshots/s07.png" alt="Test Screenshot" onclick="window.open('screenshots/s07.png'' @ [CHR 0x27] @ '', '_blank')">'',
           ''                </div>'']\<close>
    by (simp add: l12 results_get_def)
  from nth [rule_format, of 7, THEN conjunct2] have t7: \<open>entries ! 7 =
        text_block
          [''                <div class="screenshot-item">'',
           ''                    <img src="screenshots/s08.png" alt="Test Screenshot" onclick="window.open('screenshots/s08.png'' @ [CHR 0x27] @ '', '_blank')">'',
           ''                </div>'']\<close>
    by (simp add: l12 results_get_def)
  from nth [rule_format, of 8, THEN conjunct2] have t8: \<open>entries ! 8 =
        text_block
          [''                <div class="screenshot-item">'',
           ''                    <img src="screenshots/s09.png" alt="Test Screenshot" onclick="window.open('screenshots/s09.png'' @ [CHR 0x27] @ '', '_blank')">'',
           ''                </div>'']\<close>
    by (simp add: l12 results_get_def)
  from nth [rule_format, of 9, THEN conjunct2] have t9: \<open>entries ! 9 =
        text_block
          [''                <div class="screenshot-item">'',
           ''                    <img src="screenshots/s10.png" alt="Test Screenshot" onclick="window.open('screenshots/s10.png'' @ [CHR 0x27] @ '', '_blank')">'',
           ''                </div>'']\<close>
    by (simp add: l12 results_get_def)
  from nth [rule_format, of 10, THEN conjunct2] have t10: \<open>entries ! 10 =
        text_block
          [''                <div class="screenshot-item">'',
           ''                    <img src="screenshots/s11.png" alt="Test Screenshot" onclick="window.open('screenshots/s11.png'' @ [CHR 0x27] @ '', '_blank')">'',
           ''                </div>'']\<close>
    by (simp add: l12 results_get_def)
  from nth [rule_format, of 11, THEN conjunct2] have t11: \<open>entries ! 11 =
        text_block
          [''                <div class="screenshot-item">'',
           ''                    <img src="screenshots/s12.png" alt="Test Screenshot" onclick="window.open('screenshots/s12.png'' @ [CHR 0x27] @ '', '_blank')">'',
           ''                </div>'']\<close>
    by (simp add: l12 results_get_def)
  from rendered shape' l12 e t0 t1 t2 t3 t4 t5 t6 t7 t8 t9 t10 t11 show ?thesis by blast
qed

text \<open>
  Claim C10. Whenever rendering succeeds and the screenshot list is empty, the closing of
  the detailed results is followed at once by the tail: the page has no screenshot
  section, neither its heading nor an empty grid. With a non-empty list, the opening
  lines of the section (its \<open>div\<close>, its heading and the opening of the grid), the
  screenshot entries and the closing lines stand between the two. None of the three
  opening lines is a line of any other template of the page.
\<close>

theorem screenshots_section_presence:
  "generate_dashboard_html r generated_on = Inr html \<longrightarrow>
     (results_get (screenshots r) [] = [] \<longrightarrow>
        (\<exists>total_tests passed failed rate.
           html = page_head total_tests passed failed rate
                  @ concat (map test_item (results_get (test_details r) []))
                  @ text_block details_close_lines
                  @ page_tail generated_on passed failed)) \<and>
     (results_get (screenshots r) [] \<noteq> [] \<longrightarrow>
        (\<exists>total_tests passed failed rate items.
           html = page_head total_tests passed failed rate
                  @ concat (map test_item (results_get (test_details r) []))
                  @ text_block details_close_lines
                  @ text_block screenshots_open_lines @ items
                  @ text_block screenshots_close_lines
                  @ page_tail generated_on passed failed)) \<and>
     (\<forall>total_tests passed failed rate.
        set screenshots_open_lines \<inter>
          set (document_head_lines @ style_lines @ body_head_lines total_tests passed failed rate
               @ details_close_lines @ timestamp_lines generated_on
               @ results_chart_lines passed failed @ categories_chart_lines @ document_close_lines) = {})"
proof
  assume "generate_dashboard_html r generated_on = Inr html"
  from generate_dashboard_html_Inr [OF this]
  obtain rate where
    html: "html = page_head (dict_get (results_get (summary r) Map.empty) ''total_tests'' (JInt 0))
                      (dict_get (results_get (summary r) Map.empty) ''passed'' (JInt 0))
                      (dict_get (results_get (summary r) Map.empty) ''failed'' (JInt 0)) rate
            @ concat (map test_item (results_get (test_details r) []))
            @ text_block details_close_lines
            @ (if results_get (screenshots r) [] = [] then []
               else text_block screenshots_open_lines
                    @ concat (map (\<lambda>s. text_block (screenshot_item_lines s))
                               (take 12 (results_get (screenshots r) [])))
                    @ text_block screenshots_close_lines)
            @ page_tail generated_on
                (dict_get (results_get (summary r) Map.empty) ''passed'' (JInt 0))
                (dict_get (results_get (summary r) Map.empty) ''failed'' (JInt 0))"
    by blast
  show "(results_get (screenshots r) [] = [] \<longrightarrow>
        (\<exists>total_tests passed failed rate.
           html = page_head total_tests passed failed rate
                  @ concat (map test_item (results_get (test_details r) []))
                  @ text_block details_close_lines
                  @ page_tail generated_on passed failed)) \<and>
     (results_get (screenshots r) [] \<noteq> [] \<longrightarrow>
        (\<exists>total_tests passed failed rate items.
           html = page_head total_tests passed failed rate
                  @ concat (map test_item (results_get (test_details r) []))
                  @ text_block details_close_lines
                  @ text_block screenshots_open_lines @ items
                  @ text_block screenshots_close_lines
                  @ page_tail generated_on passed failed)) \<and>
     (\<forall>total_tests passed failed rate.
        set screenshots_open_lines \<inter>
          set (document_head_lines @ style_lines @ body_head_lines total_tests passed failed rate
               @ details_close_lines @ timestamp_lines generated_on
               @ results_chart_lines passed failed @ categories_chart_lines @ document_close_lines) = {})"
  proof (intro conjI impI)
    assume "results_get (screenshots r) [] = []"
    with html show "\<exists>total_tests passed failed rate.
           html = page_head total_tests passed failed rate
                  @ concat (map test_item (results_get (test_details r) []))
                  @ text_block details_close_lines
                  @ page_tail generated_on passed failed"
      by auto
  next
    assume "results_get (screenshots r) [] \<noteq> []"
    with html have "html = page_head (dict_get (results_get (summary r) Map.empty) ''total_tests'' (JInt 0))
                      (dict_get (results_get (summary r) Map.empty) ''passed'' (JInt 0))
                      (dict_get (results_get (summary r) Map.empty) ''failed'' (JInt 0)) rate
                  @ concat (map test_item (results_get (test_details r) []))
                  @ text_block details_close_lines
                  @ text_block screenshots_open_lines
                  @ concat (map (\<lambda>s. text_block (screenshot_item_lines s))
                               (take 12 (results_get (screenshots r) [])))
                  @ text_block screenshots_close_lines
                  @ page_tail generated_on
                      (dict_get (results_get (summary r) Map.empty) ''passed'' (JInt 0))
                      (dict_get (results_get (summary r) Map.empty) ''failed'' (JInt 0))"
      by simp
    then show "\<exists>total_tests passed failed rate items.
           html = page_head total_tests passed failed rate
                  @ concat (map test_item (results_get (test_details r) []))
                  @ text_block details_close_lines
                  @ text_block screenshots_open_lines @ items
                  @ text_block screenshots_close_lines
                  @ page_tail generated_on passed failed"
      by blast
  next
    show "\<forall>total_tests passed failed rate.
        set screenshots_open_lines \<inter>
          set (document_head_lines @ style_lines @ body_head_lines total_tests passed failed rate
               @ details_close_lines @ timestamp_lines generated_on
               @ results_chart_lines passed failed @ categories_chart_lines @ document_close_lines) = {}"
      by (simp only: section_lines_only_in_section) simp
  qed
qed

theorem screenshots_section_presence_witness:
  "generate_dashboard_html \<lparr>summary = None, test_details = None, screenshots = Some [], logs = None\<rparr>
       ''2026-01-01 10:00:00''
     = Inr (page_head (JInt 0) (JInt 0) (JInt 0) (float_of_small_int 0)
            @ text_block details_close_lines
            @ page_tail ''2026-01-01 10:00:00'' (JInt 0) (JInt 0)) \<and>
   results_get (screenshots \<lparr>summary = None, test_details = None, screenshots = Some [], logs = None\<rparr>) []
     = ([] :: string list) \<and>
   (\<exists>total_tests passed failed rate.
      page_head (JInt 0) (JInt 0) (JInt 0) (float_of_small_int 0)
        @ text_block details_close_lines
        @ page_tail ''2026-01-01 10:00:00'' (JInt 0) (JInt 0)
      = page_head total_tests passed failed rate
        @ concat (map test_item [])
        @ text_block details_close_lines
        @ page_tail ''2026-01-01 10:00:00'' passed failed) \<and>
   generate_dashboard_html
       \<lparr>summary = None, test_details = None, screenshots = Some [''login.png''], logs = None\<rparr>
       ''2026-01-01 10:00:00''
     = Inr (page_head (JInt 0) (JInt 0) (JInt 0) (float_of_small_int 0)
            @ text_block details_close_lines
            @ text_block screenshots_open_lines
            @ text_block (screenshot_item_lines ''login.png'')
            @ text_block screenshots_close_lines
            @ page_tail ''2026-01-01 10:00:00'' (JInt 0) (JInt 0)) \<and>
   results_get (screenshots \<lparr>summary = None, test_details = None,
                              screenshots = Some [''login.png''], logs = None\<rparr>) []
     \<noteq> [] \<and>
   (\<exists>total_tests passed failed rate items.
      page_head (JInt 0) (JInt 0) (JInt 0) (float_of_small_int 0)
        @ text_block details_close_lines
        @ text_block screenshots_open_lines
        @ text_block (screenshot_item_lines ''login.png'')
        @ text_block screenshots_close_lines
        @ page_tail ''2026-01-01 10:00:00'' (JInt 0) (JInt 0)
      = page_head total_tests passed failed rate
        @ concat (map test_item [])
        @ text_block details_close_lines
        @ text_block screenshots_open_lines @ items
        @ text_block screenshots_close_lines
        @ page_tail ''2026-01-01 10:00:00'' passed failed)"
proof -
  let ?r0 = "\<lparr>summary = None, test_details = None, screenshots = Some [], logs = None\<rparr>"
  let ?r1 = "\<lparr>summary = None, test_details = None, screenshots = Some [''login.png''], logs = None\<rparr>"
  let ?h0 = "page_head (JInt 0) (JInt 0) (JInt 0) (float_of_small_int 0)
            @ text_block details_close_lines
            @ page_tail ''2026-01-01 10:00:00'' (JInt 0) (JInt 0)"
  let ?h1 = "page_head (JInt 0) (JInt 0) (JInt 0) (float_of_small_int 0)
            @ text_block details_close_lines
            @ text_block screenshots_open_lines
            @ text_block (screenshot_item_lines ''login.png'')
            @ text_block screenshots_close_lines
            @ page_tail ''2026-01-01 10:00:00'' (JInt 0) (JInt 0)"
  have r0: "generate_dashboard_html ?r0 ''2026-01-01 10:00:00'' = Inr ?h0"
    by (simp add: generate_dashboard_html_sections results_get_def dict_get_def pass_rate_def Let_def)
  have r1: "generate_dashboard_html ?r1 ''2026-01-01 10:00:00'' = Inr ?h1"
    by (simp add: generate_dashboard_html_sections results_get_def dict_get_def pass_rate_def Let_def)
  have e0: "results_get (screenshots ?r0) [] = ([] :: string list)"
    and e1: "results_get (screenshots ?r1) [] \<noteq> []"
    by (simp_all add: results_get_def)
  from screenshots_section_presence [of ?r0 "''2026-01-01 10:00:00''" ?h0] r0 e0
  have c0: "\<exists>total_tests passed failed rate.
      ?h0 = page_head total_tests passed failed rate
        @ concat (map test_item [])
        @ text_block details_close_lines
        @ page_tail ''2026-01-01 10:00:00'' passed failed"
    by (simp add: results_get_def)
  from screenshots_section_presence [of ?r1 "''2026-01-01 10:00:00''" ?h1] r1 e1
  have c1: "\<exists>total_tests passed failed rate items.
      ?h1 = page_head total_tests passed failed rate
        @ concat (map test_item [])
        @ text_block details_close_lines
        @ text_block screenshots_open_lines @ items
        @ text_block screenshots_close_lines
        @ page_tail ''2026-01-01 10:00:00'' passed failed"
    by (simp add: results_get_def)
  from r0 e0 c0 r1 e1 c1 show ?thesis by blast
qed

section \<open>The time stamp and the charts\<close>

text \<open>
  Claim C5. For a given argument the renderer either fails, with the same error whatever
  the time stamp, or returns a page that is one fixed text, the time stamp, and another
  fixed text: two calls with identical inputs give pages that differ in the time stamp
  only. The log list, which the renderer never reads, makes no difference.
\<close>

theorem render_deterministic_modulo_timestamp:
  "(\<exists>e. \<forall>generated_on l. generate_dashboard_html (r\<lparr>logs := l\<rparr>) generated_on = Inl e) \<or>
   (\<exists>before after. \<forall>generated_on l.
      generate_dashboard_html (r\<lparr>logs := l\<rparr>) generated_on = Inr (before @ generated_on @ after))"
proof (cases "pass_rate (dict_get (results_get (summary r) Map.empty) ''total_tests'' (JInt 0))
                        (dict_get (results_get (summary r) Map.empty) ''passed'' (JInt 0))")
  case (Inl e)
  then have "\<forall>generated_on l. generate_dashboard_html (r\<lparr>logs := l\<rparr>) generated_on = Inl e"
    by (simp add: generate_dashboard_html_sections Let_def)
  then show ?thesis by blast
next
  case (Inr rate)
  let ?passed = "dict_get (results_get (summary r) Map.empty) ''passed'' (JInt 0)"
  let ?failed = "dict_get (results_get (summary r) Map.empty) ''failed'' (JInt 0)"
  let ?before = \<open>page_head (dict_get (results_get (summary r) Map.empty) ''total_tests'' (JInt 0))
                      ?passed ?failed rate
            @ concat (map test_item (results_get (test_details r) []))
            @ text_block details_close_lines
            @ (if results_get (screenshots r) [] = [] then []
               else text_block screenshots_open_lines
                    @ concat (map (\<lambda>s. text_block (screenshot_item_lines s))
                               (take 12 (results_get (screenshots r) [])))
                    @ text_block screenshots_close_lines)
            @ (CHR 0x0A # ''        <div class="timestamp">'' @ CHR 0x0A # ''            Generated on '')\<close>
  let ?after = \<open>CHR 0x0A # concat (map (\<lambda>l. l @ [CHR 0x0A])
          ([''        </div>'', ''    </div>'', ''    '', ''    <script>'']
           @ results_chart_lines ?passed ?failed @ categories_chart_lines @ document_close_lines))\<close>
  have "\<forall>generated_on l.
      generate_dashboard_html (r\<lparr>logs := l\<rparr>) generated_on = Inr (?before @ generated_on @ ?after)"
    using Inr
    by (simp add: generate_dashboard_html_sections Let_def page_tail_timestamp)
  then show ?thesis by blast
qed

lemma chart_line_7_2:
  "results_chart_lines (JInt 7) (JInt 2) ! 7 = ''                    data: [7, 2],''"
  by code_simp

text \<open>
  Claim C9. Whenever rendering succeeds, the page ends with the lines of the two charts
  and the closing lines of the document. The data line of the first chart holds the
  summary's \<open>passed\<close> and \<open>failed\<close>, as an f-string prints them. The lines of the second
  chart, with the labels \<open>Login\<close>, \<open>Trading\<close>, \<open>Views\<close>, \<open>Bulk Ops\<close> and the counts
  \<open>2, 4, 4, 2\<close>, depend on nothing: the page ends with the same text for every input.
\<close>

theorem chart_data:
  \<open>generate_dashboard_html r generated_on = Inr html \<longrightarrow>
     (\<exists>before.
        html = before @ concat (map (\<lambda>l. l @ [CHR 0x0A])
                 (results_chart_lines
                    (dict_get (results_get (summary r) Map.empty) ''passed'' (JInt 0))
                    (dict_get (results_get (summary r) Map.empty) ''failed'' (JInt 0))
                  @ categories_chart_lines @ document_close_lines))) \<and>
     (\<exists>before.
        html = before @ concat (map (\<lambda>l. l @ [CHR 0x0A])
                 (categories_chart_lines @ document_close_lines))) \<and>
     results_chart_lines
        (dict_get (results_get (summary r) Map.empty) ''passed'' (JInt 0))
        (dict_get (results_get (summary r) Map.empty) ''failed'' (JInt 0)) ! 5
       = ''                labels: ['Passed', 'Failed'],'' \<and>
     results_chart_lines
        (dict_get (results_get (summary r) Map.empty) ''passed'' (JInt 0))
        (dict_get (results_get (summary r) Map.empty) ''failed'' (JInt 0)) ! 7
       = ''                    data: [''
         @ py_str (dict_get (results_get (summary r) Map.empty) ''passed'' (JInt 0)) @ '', ''
         @ py_str (dict_get (results_get (summary r) Map.empty) ''failed'' (JInt 0)) @ ''],'' \<and>
     categories_chart_lines ! 5 = ''                labels: ['Login', 'Trading', 'Views', 'Bulk Ops'],'' \<and>
     categories_chart_lines ! 8 = ''                    data: [2, 4, 4, 2],''\<close>
proof
  let ?passed = "dict_get (results_get (summary r) Map.empty) ''passed'' (JInt 0)"
  let ?failed = "dict_get (results_get (summary r) Map.empty) ''failed'' (JInt 0)"
  assume "generate_dashboard_html r generated_on = Inr html"
  from generate_dashboard_html_tail [OF this]
  obtain front where html: "html = front @ page_tail generated_on ?passed ?failed"
    by blast
  have both: "html = (front @ text_block (timestamp_lines generated_on))
                @ concat (map (\<lambda>l. l @ [CHR 0x0A])
                    (results_chart_lines ?passed ?failed @ categories_chart_lines @ document_close_lines))"
    by (simp add: html page_tail_charts)
  have fixed: "html = (front @ text_block (timestamp_lines generated_on)
                 @ concat (map (\<lambda>l. l @ [CHR 0x0A]) (results_chart_lines ?passed ?failed)))
                @ concat (map (\<lambda>l. l @ [CHR 0x0A]) (categories_chart_lines @ document_close_lines))"
    by (simp add: html page_tail_charts)
  have c1: "\<exists>before.
        html = before @ concat (map (\<lambda>l. l @ [CHR 0x0A])
                 (results_chart_lines ?passed ?failed @ categories_chart_lines @ document_close_lines))"
    by (rule exI [of _ "front @ text_block (timestamp_lines generated_on)"]) (rule both)
  have c2: "\<exists>before.
        html = before @ concat (map (\<lambda>l. l @ [CHR 0x0A])
                 (categories_chart_lines @ document_close_lines))"
    by (rule exI [of _ "front @ text_block (timestamp_lines generated_on)
                 @ concat (map (\<lambda>l. l @ [CHR 0x0A]) (results_chart_lines ?passed ?failed))"])
       (rule fixed)
  from c1 c2 chart_lines [of ?passed ?failed]
  show \<open>(\<exists>before.
        html = before @ concat (map (\<lambda>l. l @ [CHR 0x0A])
                 (results_chart_lines ?passed ?failed
                  @ categories_chart_lines @ document_close_lines))) \<and>
     (\<exists>before.
        html = before @ concat (map (\<lambda>l. l @ [CHR 0x0A])
                 (categories_chart_lines @ document_close_lines))) \<and>
     results_chart_lines ?passed ?failed ! 5
       = ''                labels: ['Passed', 'Failed'],'' \<and>
     results_chart_lines ?passed ?failed ! 7
       = ''                    data: ['' @ py_str ?passed @ '', '' @ py_str ?failed @ ''],'' \<and>
     categories_chart_lines ! 5 = ''                labels: ['Login', 'Trading', 'Views', 'Bulk Ops'],'' \<and>
     categories_chart_lines ! 8 = ''                    data: [2, 4, 4, 2],''\<close>
    by simp
qed

theorem chart_data_witness:
  \<open>generate_dashboard_html
     \<lparr>summary = Some [''total_tests'' \<mapsto> JInt 9, ''passed'' \<mapsto> JInt 7, ''failed'' \<mapsto> JInt 2],
      test_details = None, screenshots = None, logs = None\<rparr> ''2026-01-01 10:00:00''
     = Inr (page_head (JInt 9) (JInt 7) (JInt 2) (Finite False 5473124547151645 (- 46))
            @ text_block details_close_lines
            @ page_tail ''2026-01-01 10:00:00'' (JInt 7) (JInt 2)) \<and>
   (\<exists>before.
      page_head (JInt 9) (JInt 7) (JInt 2) (Finite False 5473124547151645 (- 46))
        @ text_block details_close_lines
        @ page_tail ''2026-01-01 10:00:00'' (JInt 7) (JInt 2)
      = before @ concat (map (\<lambda>l. l @ [CHR 0x0A])
                   (results_chart_lines (JInt 7) (JInt 2)
                    @ categories_chart_lines @ document_close_lines))) \<and>
   results_chart_lines (JInt 7) (JInt 2) ! 7 = ''                    data: [7, 2],'' \<and>
   categories_chart_lines ! 8 = ''                    data: [2, 4, 4, 2],''\<close>
proof -
  let ?r = "\<lparr>summary = Some [''total_tests'' \<mapsto> JInt 9, ''passed'' \<mapsto> JInt 7, ''failed'' \<mapsto> JInt 2],
      test_details = None, screenshots = None, logs = None\<rparr>"
  let ?html = "page_head (JInt 9) (JInt 7) (JInt 2) (Finite False 5473124547151645 (- 46))
            @ text_block details_close_lines
            @ page_tail ''2026-01-01 10:00:00'' (JInt 7) (JInt 2)"
  have rendered: "generate_dashboard_html ?r ''2026-01-01 10:00:00'' = Inr ?html"
    using pass_rate_9_7
    by (simp add: generate_dashboard_html_sections results_get_def dict_get_def Let_def)
  from chart_data [of ?r "''2026-01-01 10:00:00''" ?html] rendered
  have "(\<exists>before.
      ?html = before @ concat (map (\<lambda>l. l @ [CHR 0x0A])
                   (results_chart_lines (JInt 7) (JInt 2)
                    @ categories_chart_lines @ document_close_lines))) \<and>
     categories_chart_lines ! 8 = ''                    data: [2, 4, 4, 2],''"
    by (simp add: results_get_def dict_get_def)
  with rendered chart_line_7_2 show ?thesis by blast
qed

section \<open>The orchestrator: exit status and dashboard\<close>

text \<open>
  The two ways the call of the engine can end, each with the events and the result of
  \<open>run_tests\<close> and of \<open>main\<close>; neither the dashboard nor the summary prints the error
  of a failed run.
\<close>

lemma run_tests_returns:
  assumes "engine env (fst (engine_command env test_type parallel))
             (engine_environment env browser headless) = Returns p"
  shows "run_tests env test_type browser headless parallel =
           ([PrintBanner test_type browser headless parallel,
             PrintExecuting (fst (engine_command env test_type parallel)),
             CallEngine (fst (engine_command env test_type parallel))]
            @ (if stdout p \<noteq> [] then [PrintTestOutput (stdout p)] else [])
            @ (if stderr p \<noteq> [] then [PrintWarningsErrors (stderr p)] else [])
            @ generate_dashboard env
            @ print_summary env (returncode p) (snd (engine_command env test_type parallel)),
            returncode p = 0)"
  using assms by (simp add: run_tests_def Let_def split_def)

lemma run_tests_raises:
  assumes "engine env (fst (engine_command env test_type parallel))
             (engine_environment env browser headless) = Raises e"
  shows "run_tests env test_type browser headless parallel =
           ([PrintBanner test_type browser headless parallel,
             PrintExecuting (fst (engine_command env test_type parallel)),
             CallEngine (fst (engine_command env test_type parallel)),
             PrintErrorRunningTests e],
            False)"
  using assms by (simp add: run_tests_def Let_def split_def)

lemma run_tests_main_run:
  assumes "mkdir_error env = None" and "\<not> arg_list args" and "\<not> arg_dashboard_only args"
  shows "run_tests_main env args =
           (fst (run_tests env (arg_type args) (arg_browser args) (arg_headless args) (arg_parallel args)),
            if snd (run_tests env (arg_type args) (arg_browser args) (arg_headless args) (arg_parallel args))
            then 0 else 1)"
  using assms by (simp add: run_tests_main_def Let_def split_def)

lemma generate_dashboard_no_error:
  "PrintErrorRunningTests e \<notin> set (generate_dashboard env)
   \<and> UncaughtException m \<notin> set (generate_dashboard env)"
  by (auto simp: generate_dashboard_def split: outcome.splits)

lemma print_summary_no_error:
  "PrintErrorRunningTests e \<notin> set (print_summary env exit_code report_name)
   \<and> UncaughtException m \<notin> set (print_summary env exit_code report_name)"
  by (auto simp: print_summary_def split: json_file.splits sum.splits bool.splits)

lemma no_error_after_return:
  assumes "engine env (fst (engine_command env test_type parallel))
             (engine_environment env browser headless) = Returns p"
  shows "PrintErrorRunningTests e \<notin> set (fst (run_tests env test_type browser headless parallel))
       \<and> UncaughtException m \<notin> set (fst (run_tests env test_type browser headless parallel))"
  using generate_dashboard_no_error [of e env m]
        print_summary_no_error [of e env "returncode p" "snd (engine_command env test_type parallel)" m]
  by (simp add: run_tests_returns [OF assms])

lemma run_tests_main_returns:
  assumes "mkdir_error env = None" and "\<not> arg_list args" and "\<not> arg_dashboard_only args"
    and "engine env (fst (engine_command env (arg_type args) (arg_parallel args)))
              (engine_environment env (arg_browser args) (arg_headless args)) = Returns p"
  shows "run_tests_main env args =
           ([PrintBanner (arg_type args) (arg_browser args) (arg_headless args) (arg_parallel args),
             PrintExecuting (fst (engine_command env (arg_type args) (arg_parallel args))), CallEngine (fst (engine_command env (arg_type args) (arg_parallel args)))]
            @ (if stdout p \<noteq> [] then [PrintTestOutput (stdout p)] else [])
            @ (if stderr p \<noteq> [] then [PrintWarningsErrors (stderr p)] else [])
            @ generate_dashboard env
            @ print_summary env (returncode p) (snd (engine_command env (arg_type args) (arg_parallel args))),
            if returncode p = 0 then 0 else 1)"
  using assms(1-3) by (simp add: run_tests_main_run run_tests_returns [OF assms(4)])

lemma run_tests_main_raises:
  assumes "mkdir_error env = None" and "\<not> arg_list args" and "\<not> arg_dashboard_only args"
    and "engine env (fst (engine_command env (arg_type args) (arg_parallel args)))
              (engine_environment env (arg_browser args) (arg_headless args)) = Raises e"
  shows "run_tests_main env args =
           ([PrintBanner (arg_type args) (arg_browser args) (arg_headless args) (arg_parallel args),
             PrintExecuting (fst (engine_command env (arg_type args) (arg_parallel args))), CallEngine (fst (engine_command env (arg_type args) (arg_parallel args))), PrintErrorRunningTests e], 1)"
  using assms(1-3) by (simp add: run_tests_main_run run_tests_raises [OF assms(4)])

text \<open>
  Claim C6. For a run of the tests (directories created, neither \<open>--list\<close> nor
  \<open>--dashboard-only\<close>) the process exits with status 0 exactly when the engine process
  completed with exit status 0. A non-zero exit status of the engine is no exception:
  the process exits with status 1 and no error of the run is printed. When the engine
  cannot be started, the exception is printed and the process exits with status 1, as it
  does when the directories cannot be created.
\<close>

theorem orchestrator_exit_code:
  "(mkdir_error env = None \<and> \<not> arg_list args \<and> \<not> arg_dashboard_only args \<longrightarrow>
      (snd (run_tests_main env args) = 0 \<longleftrightarrow>
         (\<exists>p. engine env (fst (engine_command env (arg_type args) (arg_parallel args)))
              (engine_environment env (arg_browser args) (arg_headless args)) = Returns p \<and> returncode p = 0)) \<and>
      (\<forall>p. engine env (fst (engine_command env (arg_type args) (arg_parallel args)))
              (engine_environment env (arg_browser args) (arg_headless args)) = Returns p \<and> returncode p \<noteq> 0 \<longrightarrow>
         snd (run_tests_main env args) = 1 \<and>
         (\<forall>e. PrintErrorRunningTests e \<notin> set (fst (run_tests_main env args))) \<and>
         (\<forall>m. UncaughtException m \<notin> set (fst (run_tests_main env args)))) \<and>
      (\<forall>e. engine env (fst (engine_command env (arg_type args) (arg_parallel args)))
              (engine_environment env (arg_browser args) (arg_headless args)) = Raises e \<longrightarrow>
         snd (run_tests_main env args) = 1 \<and>
         last (fst (run_tests_main env args)) = PrintErrorRunningTests e)) \<and>
   (\<forall>msg. mkdir_error env = Some msg \<longrightarrow> run_tests_main env args = ([UncaughtException msg], 1))"
proof (intro conjI impI allI)
  assume run: "mkdir_error env = None \<and> \<not> arg_list args \<and> \<not> arg_dashboard_only args"
  show "snd (run_tests_main env args) = 0 \<longleftrightarrow> (\<exists>p. engine env (fst (engine_command env (arg_type args) (arg_parallel args)))
              (engine_environment env (arg_browser args) (arg_headless args)) = Returns p \<and> returncode p = 0)"
  proof (cases "engine env (fst (engine_command env (arg_type args) (arg_parallel args)))
              (engine_environment env (arg_browser args) (arg_headless args))")
    case (Raises e)
    with run show ?thesis by (simp add: run_tests_main_raises)
  next
    case (Returns p)
    with run show ?thesis by (simp add: run_tests_main_returns)
  qed
next
  fix p
  assume run: "mkdir_error env = None \<and> \<not> arg_list args \<and> \<not> arg_dashboard_only args"
    and p: "engine env (fst (engine_command env (arg_type args) (arg_parallel args)))
              (engine_environment env (arg_browser args) (arg_headless args)) = Returns p \<and> returncode p \<noteq> 0"
  then show "snd (run_tests_main env args) = 1" by (simp add: run_tests_main_returns)
next
  fix p e
  assume run: "mkdir_error env = None \<and> \<not> arg_list args \<and> \<not> arg_dashboard_only args"
    and p: "engine env (fst (engine_command env (arg_type args) (arg_parallel args)))
              (engine_environment env (arg_browser args) (arg_headless args)) = Returns p \<and> returncode p \<noteq> 0"
  from p have ret: "engine env (fst (engine_command env (arg_type args) (arg_parallel args)))
              (engine_environment env (arg_browser args) (arg_headless args)) = Returns p" by simp
  from no_error_after_return [OF ret] run
  show "PrintErrorRunningTests e \<notin> set (fst (run_tests_main env args))"
    by (simp add: run_tests_main_run)
next
  fix p m
  assume run: "mkdir_error env = None \<and> \<not> arg_list args \<and> \<not> arg_dashboard_only args"
    and p: "engine env (fst (engine_command env (arg_type args) (arg_parallel args)))
              (engine_environment env (arg_browser args) (arg_headless args)) = Returns p \<and> returncode p \<noteq> 0"
  from p have ret: "engine env (fst (engine_command env (arg_type args) (arg_parallel args)))
              (engine_environment env (arg_browser args) (arg_headless args)) = Returns p" by simp
  from no_error_after_return [OF ret] run
  show "UncaughtException m \<notin> set (fst (run_tests_main env args))"
    by (simp add: run_tests_main_run)
next
  fix e
  assume run: "mkdir_error env = None \<and> \<not> arg_list args \<and> \<not> arg_dashboard_only args"
    and e: "engine env (fst (engine_command env (arg_type args) (arg_parallel args)))
              (engine_environment env (arg_browser args) (arg_headless args)) = Raises e"
  then show "snd (run_tests_main env args) = 1" by (simp add: run_tests_main_raises)
next
  fix e
  assume run: "mkdir_error env = None \<and> \<not> arg_list args \<and> \<not> arg_dashboard_only args"
    and e: "engine env (fst (engine_command env (arg_type args) (arg_parallel args)))
              (engine_environment env (arg_browser args) (arg_headless args)) = Raises e"
  then show "last (fst (run_tests_main env args)) = PrintErrorRunningTests e"
    by (simp add: run_tests_main_raises)
next
  fix msg
  assume "mkdir_error env = Some msg"
  then show "run_tests_main env args = ([UncaughtException msg], 1)"
    by (simp add: run_tests_main_def)
qed

theorem orchestrator_exit_code_witness:
  "mkdir_error \<lparr>mkdir_error = None, os_environ = Map.empty, base_dir = ''/repo'',
         report_stamp = ''20260101_100000'', junit_stamp = ''20260101_100000'',
         engine = (\<lambda>cmd child_env. Returns \<lparr>returncode = 0, stdout = ''2 passed'', stderr = ''''\<rparr>),
         dashboard_script = (\<lambda>argv. Returns \<lparr>returncode = 0, stdout = '''', stderr = ''''\<rparr>),
         summary_file = Absent\<rparr> = None \<and>
   \<not> arg_list \<lparr>arg_type = ''smoke'', arg_browser = ''chrome'', arg_headless = False, arg_parallel = False, arg_list = False, arg_dashboard_only = False\<rparr> \<and>
   \<not> arg_dashboard_only \<lparr>arg_type = ''smoke'', arg_browser = ''chrome'', arg_headless = False, arg_parallel = False, arg_list = False, arg_dashboard_only = False\<rparr> \<and>
   snd (run_tests_main \<lparr>mkdir_error = None, os_environ = Map.empty, base_dir = ''/repo'',
         report_stamp = ''20260101_100000'', junit_stamp = ''20260101_100000'',
         engine = (\<lambda>cmd child_env. Returns \<lparr>returncode = 0, stdout = ''2 passed'', stderr = ''''\<rparr>),
         dashboard_script = (\<lambda>argv. Returns \<lparr>returncode = 0, stdout = '''', stderr = ''''\<rparr>),
         summary_file = Absent\<rparr> \<lparr>arg_type = ''smoke'', arg_browser = ''chrome'', arg_headless = False, arg_parallel = False, arg_list = False, arg_dashboard_only = False\<rparr>) = 0 \<and>
   snd (run_tests_main \<lparr>mkdir_error = None, os_environ = Map.empty, base_dir = ''/repo'',
         report_stamp = ''20260101_100000'', junit_stamp = ''20260101_100000'',
         engine = (\<lambda>cmd child_env. Returns \<lparr>returncode = 1, stdout = ''1 failed'', stderr = ''''\<rparr>),
         dashboard_script = (\<lambda>argv. Raises (LaunchError ''python: not found'')),
         summary_file = Absent\<rparr> \<lparr>arg_type = ''smoke'', arg_browser = ''chrome'', arg_headless = False, arg_parallel = False, arg_list = False, arg_dashboard_only = False\<rparr>) = 1 \<and>
   snd (run_tests_main \<lparr>mkdir_error = None, os_environ = Map.empty, base_dir = ''/repo'',
         report_stamp = ''20260101_100000'', junit_stamp = ''20260101_100000'',
         engine = (\<lambda>cmd child_env. Raises (LaunchError ''python: not found'')),
         dashboard_script = (\<lambda>argv. Returns \<lparr>returncode = 0, stdout = '''', stderr = ''''\<rparr>),
         summary_file = Absent\<rparr> \<lparr>arg_type = ''smoke'', arg_browser = ''chrome'', arg_headless = False, arg_parallel = False, arg_list = False, arg_dashboard_only = False\<rparr>) = 1"
  using orchestrator_exit_code [of "\<lparr>mkdir_error = None, os_environ = Map.empty, base_dir = ''/repo'',
         report_stamp = ''20260101_100000'', junit_stamp = ''20260101_100000'',
         engine = (\<lambda>cmd child_env. Returns \<lparr>returncode = 0, stdout = ''2 passed'', stderr = ''''\<rparr>),
         dashboard_script = (\<lambda>argv. Returns \<lparr>returncode = 0, stdout = '''', stderr = ''''\<rparr>),
         summary_file = Absent\<rparr>" "\<lparr>arg_type = ''smoke'', arg_browser = ''chrome'', arg_headless = False, arg_parallel = False, arg_list = False, arg_dashboard_only = False\<rparr>"]
        orchestrator_exit_code [of "\<lparr>mkdir_error = None, os_environ = Map.empty, base_dir = ''/repo'',
         report_stamp = ''20260101_100000'', junit_stamp = ''20260101_100000'',
         engine = (\<lambda>cmd child_env. Returns \<lparr>returncode = 1, stdout = ''1 failed'', stderr = ''''\<rparr>),
         dashboard_script = (\<lambda>argv. Raises (LaunchError ''python: not found'')),
         summary_file = Absent\<rparr>" "\<lparr>arg_type = ''smoke'', arg_browser = ''chrome'', arg_headless = False, arg_parallel = False, arg_list = False, arg_dashboard_only = False\<rparr>"]
        orchestrator_exit_code [of "\<lparr>mkdir_error = None, os_environ = Map.empty, base_dir = ''/repo'',
         report_stamp = ''20260101_100000'', junit_stamp = ''20260101_100000'',
         engine = (\<lambda>cmd child_env. Raises (LaunchError ''python: not found'')),
         dashboard_script = (\<lambda>argv. Returns \<lparr>returncode = 0, stdout = '''', stderr = ''''\<rparr>),
         summary_file = Absent\<rparr>" "\<lparr>arg_type = ''smoke'', arg_browser = ''chrome'', arg_headless = False, arg_parallel = False, arg_list = False, arg_dashboard_only = False\<rparr>"]
  by simp

text \<open>
  The dashboard step leaves three events, the last one a confirmation or a warning, and
  the summary block always ends with its footer.
\<close>

lemma engine_command_dashboard_script [simp]:
  "engine_command (env\<lparr>dashboard_script := d\<rparr>) test_type parallel = engine_command env test_type parallel"
  by (simp add: engine_command_def reports_dir_def)

lemma engine_environment_dashboard_script [simp]:
  "engine_environment (env\<lparr>dashboard_script := d\<rparr>) browser headless = engine_environment env browser headless"
  by (simp add: engine_environment_def)

lemma last_print_summary:
  "last (print_summary env exit_code report_name) = PrintSummaryFooter"
  by (simp add: print_summary_def)

lemma generate_dashboard_shape:
  "\<exists>ev. generate_dashboard env = [PrintGeneratingDashboard, CallDashboard (dashboard_command env), ev]
        \<and> ((\<exists>e. dashboard_script env (dashboard_command env) = Raises e) \<or>
            (\<exists>q. dashboard_script env (dashboard_command env) = Returns q \<and> returncode q \<noteq> 0)
            \<longrightarrow> (\<exists>e. ev = PrintDashboardFailed e))"
  by (auto simp: generate_dashboard_def split: outcome.splits)

text \<open>
  Claim C7, as the code has it. When the engine process completes, whatever its exit
  status, the dashboard renderer is started after it; the exit status of the process is
  decided by the engine's alone and is the same whatever the dashboard's process does;
  and when the dashboard's process cannot be started or ends with a non-zero status, a
  warning is printed, no exception leaves the run, and the summary block is still
  printed to its end. When the call of the engine raises instead (the executable is
  missing), the handler of \<open>run_tests\<close> is entered before the dashboard step: no
  dashboard is rendered in that run, and the process exits with status 1.
\<close>

theorem dashboard_after_engine:
  "(mkdir_error env = None \<and> \<not> arg_list args \<and> \<not> arg_dashboard_only args \<and>
    engine env (fst (engine_command env (arg_type args) (arg_parallel args)))
              (engine_environment env (arg_browser args) (arg_headless args)) = Returns p \<longrightarrow>
      (\<exists>before mid after.
         fst (run_tests_main env args)
           = before @ CallEngine (fst (engine_command env (arg_type args) (arg_parallel args))) # mid @ CallDashboard (dashboard_command env) # after) \<and>
      snd (run_tests_main env args) = (if returncode p = 0 then 0 else 1) \<and>
      (\<forall>d. snd (run_tests_main (env\<lparr>dashboard_script := d\<rparr>) args) = snd (run_tests_main env args)) \<and>
      ((\<exists>e. dashboard_script env (dashboard_command env) = Raises e) \<or>
       (\<exists>q. dashboard_script env (dashboard_command env) = Returns q \<and> returncode q \<noteq> 0) \<longrightarrow>
         (\<exists>e. PrintDashboardFailed e \<in> set (fst (run_tests_main env args))) \<and>
         (\<forall>e. PrintErrorRunningTests e \<notin> set (fst (run_tests_main env args))) \<and>
         (\<forall>m. UncaughtException m \<notin> set (fst (run_tests_main env args))) \<and>
         last (fst (run_tests_main env args)) = PrintSummaryFooter)) \<and>
   (mkdir_error env = None \<and> \<not> arg_list args \<and> \<not> arg_dashboard_only args \<and>
    (\<exists>e. engine env (fst (engine_command env (arg_type args) (arg_parallel args)))
              (engine_environment env (arg_browser args) (arg_headless args)) = Raises e) \<longrightarrow>
      (\<forall>argv. CallDashboard argv \<notin> set (fst (run_tests_main env args))) \<and>
      snd (run_tests_main env args) = 1)"
proof (rule conjI; rule impI)
  assume a: "mkdir_error env = None \<and> \<not> arg_list args \<and> \<not> arg_dashboard_only args \<and>
    engine env (fst (engine_command env (arg_type args) (arg_parallel args)))
              (engine_environment env (arg_browser args) (arg_headless args)) = Returns p"
  then have run: "mkdir_error env = None" "\<not> arg_list args" "\<not> arg_dashboard_only args"
    and ret: "engine env (fst (engine_command env (arg_type args) (arg_parallel args)))
              (engine_environment env (arg_browser args) (arg_headless args)) = Returns p"
    by simp_all
  let ?summary = "print_summary env (returncode p)
                    (snd (engine_command env (arg_type args) (arg_parallel args)))"
  have main: "run_tests_main env args =
           ([PrintBanner (arg_type args) (arg_browser args) (arg_headless args) (arg_parallel args),
             PrintExecuting (fst (engine_command env (arg_type args) (arg_parallel args))), CallEngine (fst (engine_command env (arg_type args) (arg_parallel args)))]
            @ (if stdout p \<noteq> [] then [PrintTestOutput (stdout p)] else [])
            @ (if stderr p \<noteq> [] then [PrintWarningsErrors (stderr p)] else [])
            @ generate_dashboard env @ ?summary,
            if returncode p = 0 then 0 else 1)"
    by (rule run_tests_main_returns [OF run ret])
  from generate_dashboard_shape [of env]
  obtain ev where gd: "generate_dashboard env = [PrintGeneratingDashboard, CallDashboard (dashboard_command env), ev]"
    and failed: "(\<exists>e. dashboard_script env (dashboard_command env) = Raises e) \<or>
            (\<exists>q. dashboard_script env (dashboard_command env) = Returns q \<and> returncode q \<noteq> 0)
            \<longrightarrow> (\<exists>e. ev = PrintDashboardFailed e)"
    by blast
  have order: "\<exists>before mid after.
         fst (run_tests_main env args)
           = before @ CallEngine (fst (engine_command env (arg_type args) (arg_parallel args))) # mid @ CallDashboard (dashboard_command env) # after"
  proof (intro exI)
    show "fst (run_tests_main env args)
           = [PrintBanner (arg_type args) (arg_browser args) (arg_headless args) (arg_parallel args),
              PrintExecuting (fst (engine_command env (arg_type args) (arg_parallel args)))]
             @ CallEngine (fst (engine_command env (arg_type args) (arg_parallel args)))
             # ((if stdout p \<noteq> [] then [PrintTestOutput (stdout p)] else [])
                @ (if stderr p \<noteq> [] then [PrintWarningsErrors (stderr p)] else [])
                @ [PrintGeneratingDashboard])
             @ CallDashboard (dashboard_command env) # (ev # ?summary)"
      by (simp add: main gd)
  qed
  have code: "snd (run_tests_main env args) = (if returncode p = 0 then 0 else 1)"
    by (simp add: main)
  have indep: "\<forall>d. snd (run_tests_main (env\<lparr>dashboard_script := d\<rparr>) args) = snd (run_tests_main env args)"
  proof
    fix d
    have "snd (run_tests_main (env\<lparr>dashboard_script := d\<rparr>) args) = (if returncode p = 0 then 0 else 1)"
      using run ret
        run_tests_main_returns [of "env\<lparr>dashboard_script := d\<rparr>" args p]
      by simp
    with code show "snd (run_tests_main (env\<lparr>dashboard_script := d\<rparr>) args) = snd (run_tests_main env args)"
      by simp
  qed
  have caught: "(\<exists>e. dashboard_script env (dashboard_command env) = Raises e) \<or>
       (\<exists>q. dashboard_script env (dashboard_command env) = Returns q \<and> returncode q \<noteq> 0) \<longrightarrow>
         (\<exists>e. PrintDashboardFailed e \<in> set (fst (run_tests_main env args))) \<and>
         (\<forall>e. PrintErrorRunningTests e \<notin> set (fst (run_tests_main env args))) \<and>
         (\<forall>m. UncaughtException m \<notin> set (fst (run_tests_main env args))) \<and>
         last (fst (run_tests_main env args)) = PrintSummaryFooter"
  proof
    assume "(\<exists>e. dashboard_script env (dashboard_command env) = Raises e) \<or>
       (\<exists>q. dashboard_script env (dashboard_command env) = Returns q \<and> returncode q \<noteq> 0)"
    with failed obtain e where ev: "ev = PrintDashboardFailed e" by blast
    have warned: "\<exists>e. PrintDashboardFailed e \<in> set (fst (run_tests_main env args))"
      by (rule exI [of _ e]) (simp add: main gd ev)
    have quiet: "(\<forall>e. PrintErrorRunningTests e \<notin> set (fst (run_tests_main env args))) \<and>
         (\<forall>m. UncaughtException m \<notin> set (fst (run_tests_main env args)))"
      using no_error_after_return [OF ret] run by (simp add: run_tests_main_run)
    have nonempty: "?summary \<noteq> []" by (simp add: print_summary_def)
    have final: "last (fst (run_tests_main env args)) = PrintSummaryFooter"
      using nonempty last_print_summary [of env "returncode p"
              "snd (engine_command env (arg_type args) (arg_parallel args))"]
      by (simp add: main)
    from warned quiet final
    show "(\<exists>e. PrintDashboardFailed e \<in> set (fst (run_tests_main env args))) \<and>
         (\<forall>e. PrintErrorRunningTests e \<notin> set (fst (run_tests_main env args))) \<and>
         (\<forall>m. UncaughtException m \<notin> set (fst (run_tests_main env args))) \<and>
         last (fst (run_tests_main env args)) = PrintSummaryFooter"
      by blast
  qed
  from order code indep caught
  show "(\<exists>before mid after.
         fst (run_tests_main env args)
           = before @ CallEngine (fst (engine_command env (arg_type args) (arg_parallel args))) # mid @ CallDashboard (dashboard_command env) # after) \<and>
      snd (run_tests_main env args) = (if returncode p = 0 then 0 else 1) \<and>
      (\<forall>d. snd (run_tests_main (env\<lparr>dashboard_script := d\<rparr>) args) = snd (run_tests_main env args)) \<and>
      ((\<exists>e. dashboard_script env (dashboard_command env) = Raises e) \<or>
       (\<exists>q. dashboard_script env (dashboard_command env) = Returns q \<and> returncode q \<noteq> 0) \<longrightarrow>
         (\<exists>e. PrintDashboardFailed e \<in> set (fst (run_tests_main env args))) \<and>
         (\<forall>e. PrintErrorRunningTests e \<notin> set (fst (run_tests_main env args))) \<and>
         (\<forall>m. UncaughtException m \<notin> set (fst (run_tests_main env args))) \<and>
         last (fst (run_tests_main env args)) = PrintSummaryFooter)"
    by blast
next
  assume a: "mkdir_error env = None \<and> \<not> arg_list args \<and> \<not> arg_dashboard_only args \<and>
    (\<exists>e. engine env (fst (engine_command env (arg_type args) (arg_parallel args)))
              (engine_environment env (arg_browser args) (arg_headless args)) = Raises e)"
  then obtain e where "engine env (fst (engine_command env (arg_type args) (arg_parallel args)))
              (engine_environment env (arg_browser args) (arg_headless args)) = Raises e" by blast
  with a show "(\<forall>argv. CallDashboard argv \<notin> set (fst (run_tests_main env args))) \<and>
      snd (run_tests_main env args) = 1"
    by (simp add: run_tests_main_raises)
qed

theorem dashboard_after_engine_witness:
  "mkdir_error \<lparr>mkdir_error = None, os_environ = Map.empty, base_dir = ''/repo'',
         report_stamp = ''20260101_100000'', junit_stamp = ''20260101_100000'',
         engine = (\<lambda>cmd child_env. Returns \<lparr>returncode = 1, stdout = ''1 failed'', stderr = ''''\<rparr>),
         dashboard_script = (\<lambda>argv. Raises (LaunchError ''python: not found'')),
         summary_file = Absent\<rparr> = None \<and>
   \<not> arg_list \<lparr>arg_type = ''smoke'', arg_browser = ''chrome'', arg_headless = False, arg_parallel = False, arg_list = False, arg_dashboard_only = False\<rparr> \<and>
   \<not> arg_dashboard_only \<lparr>arg_type = ''smoke'', arg_browser = ''chrome'', arg_headless = False, arg_parallel = False, arg_list = False, arg_dashboard_only = False\<rparr> \<and>
   snd (run_tests_main \<lparr>mkdir_error = None, os_environ = Map.empty, base_dir = ''/repo'',
         report_stamp = ''20260101_100000'', junit_stamp = ''20260101_100000'',
         engine = (\<lambda>cmd child_env. Returns \<lparr>returncode = 1, stdout = ''1 failed'', stderr = ''''\<rparr>),
         dashboard_script = (\<lambda>argv. Raises (LaunchError ''python: not found'')),
         summary_file = Absent\<rparr> \<lparr>arg_type = ''smoke'', arg_browser = ''chrome'', arg_headless = False, arg_parallel = False, arg_list = False, arg_dashboard_only = False\<rparr>) = 1 \<and>
   (\<exists>e. PrintDashboardFailed e \<in> set (fst (run_tests_main \<lparr>mkdir_error = None, os_environ = Map.empty, base_dir = ''/repo'',
         report_stamp = ''20260101_100000'', junit_stamp = ''20260101_100000'',
         engine = (\<lambda>cmd child_env. Returns \<lparr>returncode = 1, stdout = ''1 failed'', stderr = ''''\<rparr>),
         dashboard_script = (\<lambda>argv. Raises (LaunchError ''python: not found'')),
         summary_file = Absent\<rparr> \<lparr>arg_type = ''smoke'', arg_browser = ''chrome'', arg_headless = False, arg_parallel = False, arg_list = False, arg_dashboard_only = False\<rparr>))) \<and>
   last (fst (run_tests_main \<lparr>mkdir_error = None, os_environ = Map.empty, base_dir = ''/repo'',
         report_stamp = ''20260101_100000'', junit_stamp = ''20260101_100000'',
         engine = (\<lambda>cmd child_env. Returns \<lparr>returncode = 1, stdout = ''1 failed'', stderr = ''''\<rparr>),
         dashboard_script = (\<lambda>argv. Raises (LaunchError ''python: not found'')),
         summary_file = Absent\<rparr> \<lparr>arg_type = ''smoke'', arg_browser = ''chrome'', arg_headless = False, arg_parallel = False, arg_list = False, arg_dashboard_only = False\<rparr>)) = PrintSummaryFooter"
  using dashboard_after_engine [of "\<lparr>mkdir_error = None, os_environ = Map.empty, base_dir = ''/repo'',
         report_stamp = ''20260101_100000'', junit_stamp = ''20260101_100000'',
         engine = (\<lambda>cmd child_env. Returns \<lparr>returncode = 1, stdout = ''1 failed'', stderr = ''''\<rparr>),
         dashboard_script = (\<lambda>argv. Raises (LaunchError ''python: not found'')),
         summary_file = Absent\<rparr>" "\<lparr>arg_type = ''smoke'', arg_browser = ''chrome'', arg_headless = False, arg_parallel = False, arg_list = False, arg_dashboard_only = False\<rparr>" "\<lparr>returncode = 1, stdout = ''1 failed'', stderr = ''''\<rparr>"]
  by simp

text \<open>
  The claim as the specification words it, "for every orchestrator run the renderer is
  invoked", fails on the run in which the engine cannot be started: its events are the
  banner, the command, the attempt to run it and the error message, and no dashboard.
\<close>

theorem dashboard_after_engine_counterexample:
  "run_tests_main \<lparr>mkdir_error = None, os_environ = Map.empty, base_dir = ''/repo'',
         report_stamp = ''20260101_100000'', junit_stamp = ''20260101_100000'',
         engine = (\<lambda>cmd child_env. Raises (LaunchError ''python: not found'')),
         dashboard_script = (\<lambda>argv. Returns \<lparr>returncode = 0, stdout = '''', stderr = ''''\<rparr>),
         summary_file = Absent\<rparr> \<lparr>arg_type = ''smoke'', arg_browser = ''chrome'', arg_headless = False, arg_parallel = False, arg_list = False, arg_dashboard_only = False\<rparr> =
     ([PrintBanner ''smoke'' ''chrome'' False False,
       PrintExecuting [''python'', ''-m'', ''pytest'', ''-m'', ''smoke'', ''-v'',
                       ''--html'', ''/repo/reports/smoke_test_report_20260101_100000.html'',
                       ''--self-contained-html'',
                       ''--junit-xml'', ''/repo/reports/junit_smoke_20260101_100000.xml''],
       CallEngine [''python'', ''-m'', ''pytest'', ''-m'', ''smoke'', ''-v'',
                  ''--html'', ''/repo/reports/smoke_test_report_20260101_100000.html'',
                  ''--self-contained-html'',
                  ''--junit-xml'', ''/repo/reports/junit_smoke_20260101_100000.xml''],
       PrintErrorRunningTests (LaunchError ''python: not found'')],
      1)"
  by (simp add: run_tests_main_def run_tests_def engine_command_def engine_environment_def
        reports_dir_def path_join_def Let_def)

end
